theory Spec2Isabelle
  imports Main "HOL-Library.Char_ord" "HOL-Library.List_Lexorder" "HOL-Library.Sublist"
    "HOL-Library.Multiset"
begin

section \<open>render\_album.py: the album builder as a shallow embedding\<close>

text \<open>
  The program discovers the source audio files of a directory, asks an external encoder
  (\<^verbatim>\<open>ffmpeg\<close>) to normalise each of them, to concatenate the results and to render a
  video over a cover image. Everything the program itself does is path handling,
  argument-vector construction, the manifest file and error reporting; that is what is
  embedded here.

  Conventions of the embedding:
  \<^item> a \<^verbatim>\<open>pathlib.Path\<close> is held as its \<^verbatim>\<open>str()\<close> form, a \<^typ>\<open>string\<close>, in the POSIX
    flavour (separator \<^verbatim>\<open>/\<close>);
  \<^item> a Python \<^verbatim>\<open>str\<close> is a \<^typ>\<open>string\<close> of bytes (UTF-8), whose order by byte value is
    the order by code point;
  \<^item> whatever the program asks of its environment (path resolution, existence tests,
    globbing, the name of the fresh temporary directory, the exit code and captured
    output of each external process) is read from a record \<open>world\<close>;
  \<^item> whatever the program changes (the processes it has launched, the text files it has
    written, the scratch directories that exist, the two output streams) is a record
    \<open>state\<close>, passed through every function and returned with the result;
  \<^item> a raised exception is the left injection of a sum, and the state at the point of
    the raise is returned with it.
  The encoder is an opaque collaborator: the model records each invocation and reads from
  the world the exit code and the captured combined output, which either decodes as text
  or does not. The encoder is assumed to be startable (the search path holds it). The
  other library calls (\<^verbatim>\<open>expanduser\<close>, \<^verbatim>\<open>resolve\<close>, \<^verbatim>\<open>glob\<close>, the existence tests, the
  creation and removal of the scratch directory, the file writes and \<^verbatim>\<open>print\<close>) are
  taken to return.
\<close>

subsection \<open>Strings and number formatting\<close>

definition digit_char :: "nat \<Rightarrow> char" where
  "digit_char d = ''0123456789'' ! d"

text \<open>\<^verbatim>\<open>str(n)\<close> for a non-negative integer \<open>n\<close>.\<close>

fun str_nat :: "nat \<Rightarrow> string" where
  "str_nat n = (if n < 10 then [digit_char n] else str_nat (n div 10) @ [digit_char (n mod 10)])"

declare str_nat.simps [simp del]

text \<open>\<^verbatim>\<open>str(i)\<close> for an integer \<open>i\<close> (a return code is negative when a signal ended the process).\<close>

definition str_int :: "int \<Rightarrow> string" where
  "str_int i = (if i < 0 then CHR ''-'' # str_nat (nat (- i)) else str_nat (nat i))"

text \<open>The format \<^verbatim>\<open>{idx:02d}\<close>: decimal, padded with zeros on the left to a width of at least two.\<close>

definition fmt_02d :: "nat \<Rightarrow> string" where
  "fmt_02d n = (let s = str_nat n in replicate (2 - length s) CHR ''0'' @ s)"



text \<open>\<^verbatim>\<open>' '.join(cmd)\<close>.\<close>

fun join_space :: "string list \<Rightarrow> string" where
  "join_space [] = []"
| "join_space [x] = x"
| "join_space (x # y # ys) = x @ '' '' @ join_space (y # ys)"

text \<open>\<^verbatim>\<open>str.lower()\<close> on the ASCII letters; every other byte is left as it is.\<close>

definition lower_char :: "char \<Rightarrow> char" where
  "lower_char c =
     (case map_of (zip ''ABCDEFGHIJKLMNOPQRSTUVWXYZ'' ''abcdefghijklmnopqrstuvwxyz'') c of
        None \<Rightarrow> c
      | Some l \<Rightarrow> l)"

definition lower :: "string \<Rightarrow> string" where
  "lower s = map lower_char s"

subsection \<open>Paths\<close>

definition is_absolute :: "string \<Rightarrow> bool" where
  "is_absolute p = (p \<noteq> [] \<and> hd p = CHR ''/'')"

definition dir_prefix :: "string \<Rightarrow> string" where
  "dir_prefix d = (if d \<noteq> [] \<and> last d = CHR ''/'' then d else d @ ''/'')"

text \<open>
  The operator \<^verbatim>\<open>d / n\<close> of pathlib: an absolute right operand replaces the left one,
  a relative one is appended after one separator.
\<close>

definition path_join :: "string \<Rightarrow> string \<Rightarrow> string" where
  "path_join d n = (if is_absolute n then n else dir_prefix d @ n)"

text \<open>\<^verbatim>\<open>Path.name\<close>: the final component.\<close>

definition path_name :: "string \<Rightarrow> string" where
  "path_name p = rev (takeWhile (\<lambda>c. c \<noteq> CHR ''/'') (rev p))"

text \<open>\<^verbatim>\<open>str.rfind(c)\<close>, with \<open>None\<close> for Python's \<open>-1\<close>.\<close>

fun rfind :: "char \<Rightarrow> string \<Rightarrow> nat option" where
  "rfind c [] = None"
| "rfind c (x # xs) =
     (case rfind c xs of
        Some i \<Rightarrow> Some (Suc i)
      | None \<Rightarrow> if x = c then Some 0 else None)"

text \<open>
  \<^verbatim>\<open>Path.suffix\<close>: the part of the name from its last dot on, when that dot is neither
  the first nor the last character of the name; otherwise the empty string. (This is the
  property as CPython defines it up to version 3.13; later versions differ only for names
  that begin or end with a dot.)
\<close>

definition path_suffix :: "string \<Rightarrow> string" where
  "path_suffix p =
     (let name = path_name p in
      case rfind CHR ''.'' name of
        None \<Rightarrow> []
      | Some i \<Rightarrow> if 0 < i \<and> i + 1 < length name then drop i name else [])"

text \<open>
  Paths compare component by component (\<^verbatim>\<open>PurePath.__lt__\<close> compares the lists of
  parts), each component as a string.
\<close>

fun split_sep :: "string \<Rightarrow> string list" where
  "split_sep [] = [[]]"
| "split_sep (c # cs) =
     (if c = CHR ''/'' then [] # split_sep cs
      else (case split_sep cs of
              [] \<Rightarrow> [[c]]
            | p # ps \<Rightarrow> (c # p) # ps))"


definition sorted_paths :: "string list \<Rightarrow> string list" where
  "sorted_paths ps = sort_key split_sep ps"

subsection \<open>The environment and the state\<close>

text \<open>
  The combined output a process left in the pipe, as \<^verbatim>\<open>subprocess.run\<close> with
  \<^verbatim>\<open>text=True\<close> sees it: bytes that decode to a text, or bytes that do not, and then the
  message of the \<open>UnicodeDecodeError\<close> the decoder raises.
\<close>

datatype captured = Text string | Undecodable string

record world =
  expanduser :: "string \<Rightarrow> string"
  resolve :: "string \<Rightarrow> string"
  path_exists :: "string \<Rightarrow> bool"
  glob :: "string \<Rightarrow> string \<Rightarrow> string list"
  is_file :: "string \<Rightarrow> bool"
  mkdtemp :: string
  proc :: "nat \<Rightarrow> string list \<Rightarrow> int \<times> captured"

text \<open>
  \<open>proc w n cmd\<close> is what the \<open>n\<close>-th process launched in the run (counting from 0) does
  when it is given the argument vector \<open>cmd\<close>: its exit code and its combined standard
  output and standard error.
\<close>

text \<open>An invocation has succeeded when it exited with 0 and its output decoded.\<close>

definition succeeded :: "int \<times> captured \<Rightarrow> bool" where
  "succeeded r = (case snd r of Text out \<Rightarrow> fst r = 0 | Undecodable msg \<Rightarrow> False)"

record state =
  spawned :: "string list list"
  files :: "string \<rightharpoonup> string"
  dirs :: "string list"
  stdout :: string
  stderr :: string

datatype exn =
    FileNotFoundError string
  | SystemExit string
  | RuntimeError string
  | UnicodeDecodeError string

text \<open>
  The spec's names for the first three: \<open>MissingPathError\<close> is \<open>FileNotFoundError\<close>,
  \<open>NoInputsError\<close> is \<open>SystemExit\<close> (raised with a message) and \<open>CommandFailedError\<close>
  is \<open>RuntimeError\<close>. \<open>UnicodeDecodeError\<close> is what the library raises on captured
  output that does not decode; the spec has no name for it.
\<close>

fun str_exn :: "exn \<Rightarrow> string" where
  "str_exn (FileNotFoundError m) = m"
| "str_exn (SystemExit m) = m"
| "str_exn (RuntimeError m) = m"
| "str_exn (UnicodeDecodeError m) = m"

definition print :: "string \<Rightarrow> state \<Rightarrow> state" where
  "print line s = s\<lparr>stdout := stdout s @ line @ [CHR 0x0A]\<rparr>"

definition print_err :: "string \<Rightarrow> state \<Rightarrow> state" where
  "print_err line s = s\<lparr>stderr := stderr s @ line @ [CHR 0x0A]\<rparr>"

text \<open>\<^verbatim>\<open>Path.write_text(text)\<close>: the file holds exactly \<open>text\<close> afterwards.\<close>

definition write_text :: "string \<Rightarrow> string \<Rightarrow> state \<Rightarrow> state" where
  "write_text p txt s = s\<lparr>files := (files s)(p \<mapsto> txt)\<rparr>"

text \<open>Opening in mode \<^verbatim>\<open>"a"\<close> and writing: the file is created when absent, and grows at its end.\<close>

definition append_text :: "string \<Rightarrow> string \<Rightarrow> state \<Rightarrow> state" where
  "append_text p txt s =
     s\<lparr>files := (files s)(p \<mapsto> (case files s p of None \<Rightarrow> [] | Some old \<Rightarrow> old) @ txt)\<rparr>"

subsection \<open>run\<close>

definition command_failed_msg :: "int \<Rightarrow> string list \<Rightarrow> string \<Rightarrow> string" where
  "command_failed_msg rc cmd out =
     ''Command failed ('' @ str_int rc @ ''): '' @ join_space cmd @ [CHR 0x0A] @ out"

text \<open>
  \<^verbatim>\<open>subprocess.run\<close> decodes the captured output before it returns, so output that does
  not decode makes it raise whatever the exit code; only then does \<open>run\<close> look at the exit
  code.
\<close>

definition run :: "world \<Rightarrow> string list \<Rightarrow> state \<Rightarrow> (exn + string) \<times> state" where
  "run w cmd s =
     (let (returncode, cap) = proc w (length (spawned s)) cmd;
          s' = s\<lparr>spawned := spawned s @ [cmd]\<rparr>
      in case cap of
           Undecodable msg \<Rightarrow> (Inl (UnicodeDecodeError msg), s')
         | Text out \<Rightarrow>
             if returncode \<noteq> 0
             then (Inl (RuntimeError (command_failed_msg returncode cmd out)), s')
             else (Inr out, s'))"

text \<open>
  What \<open>run\<close> raises for an invocation that has not succeeded, and the text it returns for
  one that has.
\<close>

definition run_error :: "int \<times> captured \<Rightarrow> string list \<Rightarrow> exn" where
  "run_error r cmd =
     (case snd r of
        Undecodable msg \<Rightarrow> UnicodeDecodeError msg
      | Text out \<Rightarrow> RuntimeError (command_failed_msg (fst r) cmd out))"

definition text_of :: "captured \<Rightarrow> string" where
  "text_of c = (case c of Text out \<Rightarrow> out | Undecodable msg \<Rightarrow> [])"

subsection \<open>ensure\_exists\<close>

definition ensure_exists :: "world \<Rightarrow> string \<Rightarrow> string \<Rightarrow> exn + unit" where
  "ensure_exists w path kind =
     (if \<not> path_exists w path
      then Inl (FileNotFoundError (''Missing '' @ kind @ '': '' @ path))
      else Inr ())"

subsection \<open>transcode\_wavs\_to\_flacs (the Normalizer)\<close>

definition transcode_cmd :: "string \<Rightarrow> string \<Rightarrow> string list" where
  "transcode_cmd wav flac_out =
     [''ffmpeg'', ''-y'', ''-i'', wav, ''-c:a'', ''flac'', ''-sample_fmt'', ''s32'',
      ''-ar'', ''48000'', flac_out]"

text \<open>The text written by \<^verbatim>\<open>f.write(f"file '{flac_out}'\n")\<close>.\<close>

definition manifest_line :: "string \<Rightarrow> string" where
  "manifest_line flac_out = ''file '' @ [CHR 0x27] @ flac_out @ [CHR 0x27] @ [CHR 0x0A]"

definition flac_path :: "string \<Rightarrow> nat \<Rightarrow> string" where
  "flac_path workdir idx = path_join workdir (fmt_02d idx @ ''.flac'')"

text \<open>
  One pass through the body of the \<^verbatim>\<open>for\<close> loop: build the command, run it, and only when
  it returned append to \<open>flac_paths\<close> and to the manifest.
\<close>

definition transcode_one ::
  "world \<Rightarrow> string \<Rightarrow> string \<Rightarrow> nat \<times> string \<Rightarrow> string list \<Rightarrow> state
   \<Rightarrow> (exn + string list) \<times> state" where
  "transcode_one w workdir list_path iw flac_paths s =
     (let flac_out = flac_path workdir (fst iw);
          cmd = transcode_cmd (snd iw) flac_out
      in case run w cmd s of
           (Inl e, s1) \<Rightarrow> (Inl e, s1)
         | (Inr _, s1) \<Rightarrow>
             (Inr (flac_paths @ [flac_out]), append_text list_path (manifest_line flac_out) s1))"

fun transcode_loop ::
  "world \<Rightarrow> string \<Rightarrow> string \<Rightarrow> (nat \<times> string) list \<Rightarrow> string list \<Rightarrow> state
   \<Rightarrow> (exn + string list) \<times> state" where
  "transcode_loop w workdir list_path [] flac_paths s = (Inr flac_paths, s)"
| "transcode_loop w workdir list_path (iw # rest) flac_paths s =
     (case transcode_one w workdir list_path iw flac_paths s of
        (Inl e, s1) \<Rightarrow> (Inl e, s1)
      | (Inr flac_paths', s1) \<Rightarrow> transcode_loop w workdir list_path rest flac_paths' s1)"

definition transcode_wavs_to_flacs ::
  "world \<Rightarrow> string list \<Rightarrow> string \<Rightarrow> state \<Rightarrow> (exn + string list \<times> string) \<times> state" where
  "transcode_wavs_to_flacs w wavs workdir s =
     (let list_path = path_join workdir ''flac_list.txt'';
          s0 = write_text list_path [] s
      in case transcode_loop w workdir list_path (enumerate 1 wavs) [] s0 of
           (Inl e, s1) \<Rightarrow> (Inl e, s1)
         | (Inr flac_paths, s1) \<Rightarrow> (Inr (flac_paths, list_path), s1))"

text \<open>
  What the \<open>k\<close>-th invocation of the loop does, counting from 0, when the Normalizer is
  entered in state \<open>s\<close>: it is the \<open>(k + 1)\<close>-th transcode, of the source \<open>wavs ! k\<close> into the
  intermediate numbered \<open>k + 1\<close>.
\<close>

definition transcode_result ::
  "world \<Rightarrow> state \<Rightarrow> string list \<Rightarrow> string \<Rightarrow> nat \<Rightarrow> int \<times> captured" where
  "transcode_result w s wavs workdir k =
     proc w (length (spawned s) + k) (transcode_cmd (wavs ! k) (flac_path workdir (Suc k)))"

text \<open>
  What a reader of the manifest takes as the path of a line: the text between the first
  single quote and the next one. (Inside single quotes the encoder's format has no
  escape, so the field ends at the next quote.)
\<close>

definition quoted_field :: "string \<Rightarrow> string" where
  "quoted_field line =
     takeWhile (\<lambda>c. c \<noteq> CHR 0x27) (tl (dropWhile (\<lambda>c. c \<noteq> CHR 0x27) line))"

subsection \<open>concat\_flacs (the Concatenator)\<close>

definition concat_cmd :: "string \<Rightarrow> string \<Rightarrow> string list" where
  "concat_cmd list_path out_flac =
     [''ffmpeg'', ''-y'', ''-f'', ''concat'', ''-safe'', ''0'', ''-i'', list_path,
      ''-c:a'', ''flac'', ''-sample_fmt'', ''s32'', ''-ar'', ''48000'', out_flac]"

definition concat_flacs :: "world \<Rightarrow> string \<Rightarrow> string \<Rightarrow> state \<Rightarrow> (exn + unit) \<times> state" where
  "concat_flacs w list_path out_flac s =
     (case run w (concat_cmd list_path out_flac) s of
        (Inl e, s1) \<Rightarrow> (Inl e, s1)
      | (Inr _, s1) \<Rightarrow> (Inr (), s1))"

subsection \<open>render\_video (the Renderer)\<close>

definition FRAMERATE :: nat where
  "FRAMERATE = 30"

definition audio_codec :: "string \<Rightarrow> string list" where
  "audio_codec output =
     (let ext = lower (path_suffix output)
      in if ext = ''.mp4'' then [''-c:a'', ''aac'', ''-b:a'', ''320k''] else [''-c:a'', ''copy''])"

definition render_cmd :: "string \<Rightarrow> string \<Rightarrow> string \<Rightarrow> string list" where
  "render_cmd cover audio output =
     [''ffmpeg'', ''-y'', ''-loop'', ''1'', ''-framerate'', str_nat FRAMERATE,
      ''-i'', cover, ''-i'', audio,
      ''-c:v'', ''h264_nvenc'', ''-preset'', ''p7'', ''-rc'', ''vbr_hq'', ''-cq'', ''17'',
      ''-b:v'', ''8M'', ''-maxrate'', ''12M'', ''-bufsize'', ''24M'',
      ''-profile:v'', ''high'', ''-pix_fmt'', ''yuv420p'', ''-r'', str_nat FRAMERATE]
     @ audio_codec output
     @ [''-shortest'', ''-movflags'', ''+faststart'', output]"

definition render_video ::
  "world \<Rightarrow> string \<Rightarrow> string \<Rightarrow> string \<Rightarrow> state \<Rightarrow> (exn + unit) \<times> state" where
  "render_video w cover audio output s =
     (case run w (render_cmd cover audio output) s of
        (Inl e, s1) \<Rightarrow> (Inl e, s1)
      | (Inr _, s1) \<Rightarrow> (Inr (), s1))"

subsection \<open>main\<close>

record args =
  arg_input :: string
  arg_cover :: string
  arg_pattern :: string
  arg_output :: string

text \<open>
  \<open>args\<close> is the namespace \<^verbatim>\<open>parse_args()\<close> returned; the embedding starts after the
  command line has been parsed.
\<close>

definition root_of :: "world \<Rightarrow> args \<Rightarrow> string" where
  "root_of w a = resolve w (expanduser w (arg_input a))"

definition cover_of :: "world \<Rightarrow> args \<Rightarrow> string" where
  "cover_of w a = resolve w (path_join (root_of w a) (arg_cover a))"

definition output_video_of :: "world \<Rightarrow> args \<Rightarrow> string" where
  "output_video_of w a = resolve w (path_join (root_of w a) (arg_output a))"

text \<open>
  \<^verbatim>\<open>wavs = sorted(root.glob(args.pattern))\<close> followed by
  \<^verbatim>\<open>wavs = [w for w in wavs if w.is_file()]\<close>.
\<close>

definition source_files :: "world \<Rightarrow> args \<Rightarrow> string list" where
  "source_files w a = filter (is_file w) (sorted_paths (glob w (root_of w a) (arg_pattern a)))"

text \<open>
  \<^verbatim>\<open>tempfile.TemporaryDirectory()\<close> as a context manager: entering creates the directory,
  leaving (by the end of the block or by an exception) removes it with everything below it.
\<close>

definition beneath :: "string \<Rightarrow> string \<Rightarrow> bool" where
  "beneath d p = prefix (dir_prefix d) p"

definition create_tmpdir :: "string \<Rightarrow> state \<Rightarrow> state" where
  "create_tmpdir d s = s\<lparr>dirs := d # dirs s\<rparr>"

definition cleanup :: "string \<Rightarrow> state \<Rightarrow> state" where
  "cleanup d s =
     s\<lparr>dirs := removeAll d (dirs s),
       files := (\<lambda>p. if beneath d p then None else files s p)\<rparr>"

text \<open>The body of the \<^verbatim>\<open>with\<close> block; its value is \<open>output_video\<close>.\<close>

definition pipeline ::
  "world \<Rightarrow> args \<Rightarrow> string list \<Rightarrow> string \<Rightarrow> state \<Rightarrow> (exn + string) \<times> state" where
  "pipeline w a wavs workdir s =
     (case transcode_wavs_to_flacs w wavs workdir s of
        (Inl e, s1) \<Rightarrow> (Inl e, s1)
      | (Inr (flacs, listfile), s1) \<Rightarrow>
          (let concat_flac = path_join workdir ''album_concat.flac''
           in case concat_flacs w listfile concat_flac s1 of
                (Inl e, s2) \<Rightarrow> (Inl e, s2)
              | (Inr _, s2) \<Rightarrow>
                  (let output_video = output_video_of w a;
                       s3 = print (''Rendering final video -> '' @ path_name output_video) s2
                   in case render_video w (cover_of w a) concat_flac output_video s3 of
                        (Inl e, s4) \<Rightarrow> (Inl e, s4)
                      | (Inr _, s4) \<Rightarrow> (Inr output_video, s4))))"

definition main :: "world \<Rightarrow> args \<Rightarrow> state \<Rightarrow> (exn + unit) \<times> state" where
  "main w a s =
     (case ensure_exists w (root_of w a) ''input directory'' of
        Inl e \<Rightarrow> (Inl e, s)
      | Inr _ \<Rightarrow>
     (case ensure_exists w (cover_of w a) ''cover image'' of
        Inl e \<Rightarrow> (Inl e, s)
      | Inr _ \<Rightarrow>
     (let wavs = source_files w a
      in if wavs = [] then (Inl (SystemExit ''No WAV files found.''), s)
         else
           (let s1 = print (''Found '' @ str_nat (length wavs)
                              @ '' WAV files. Concatenating audio...'') s;
                tmpdir = mkdtemp w;
                s2 = create_tmpdir tmpdir s1
            in case pipeline w a wavs tmpdir s2 of
                 (Inl e, s3) \<Rightarrow> (Inl e, cleanup tmpdir s3)
               | (Inr output_video, s3) \<Rightarrow>
                   (Inr (),
                    print (''Output video: '' @ output_video)
                      (print ''Done.'' (cleanup tmpdir s3)))))))"

subsection \<open>The script: the \_\_main\_\_ guard\<close>

text \<open>
  What \<^verbatim>\<open>parser.parse_args()\<close>, the first statement of \<^verbatim>\<open>main()\<close>, does with the command
  line of the run: it returns the namespace of the four arguments; or it rejects the
  command line (a missing \<^verbatim>\<open>--input\<close>, an unknown option), writes the usage and an error
  message to the error stream and raises \<^verbatim>\<open>SystemExit(2)\<close>; or, asked for help, it prints
  the help text and raises \<^verbatim>\<open>SystemExit(0)\<close>. The definition \<open>main\<close> above is the rest of
  \<^verbatim>\<open>main()\<close>, for the namespace returned.
\<close>

datatype cmdline = Namespace args | Usage_error string | Help_shown string

text \<open>
  \<^verbatim>\<open>except Exception\<close> catches \<open>FileNotFoundError\<close>, \<open>RuntimeError\<close> and
  \<open>UnicodeDecodeError\<close>. \<open>SystemExit\<close> is not an \<open>Exception\<close>: it leaves the guard. Raised
  with an integer, as by \<^verbatim>\<open>parse_args\<close>, it ends the process with that status and nothing
  more is written; raised with a message, as by \<open>main\<close>, the interpreter writes the message
  to the error stream and ends the process with status 1. The result is the exit status
  and the final state.
\<close>

definition script :: "world \<Rightarrow> cmdline \<Rightarrow> state \<Rightarrow> int \<times> state" where
  "script w c s =
     (case c of
        Usage_error text \<Rightarrow> (2, s\<lparr>stderr := stderr s @ text\<rparr>)
      | Help_shown text \<Rightarrow> (0, s\<lparr>stdout := stdout s @ text\<rparr>)
      | Namespace a \<Rightarrow>
          (case main w a s of
             (Inr _, s') \<Rightarrow> (0, s')
           | (Inl (SystemExit m), s') \<Rightarrow> (1, print_err m s')
           | (Inl exc, s') \<Rightarrow> (1, print_err (''Error: '' @ str_exn exc) s')))"

text \<open>
  The commands of a run that goes through, in the order in which they are launched: one
  transcode per source file, the concatenation, the rendering.
\<close>

definition pipeline_cmds :: "world \<Rightarrow> args \<Rightarrow> string list \<Rightarrow> string \<Rightarrow> string list list" where
  "pipeline_cmds w a wavs workdir =
     map (\<lambda>k. transcode_cmd (wavs ! k) (flac_path workdir (Suc k))) [0..<length wavs]
     @ [concat_cmd (path_join workdir ''flac_list.txt'') (path_join workdir ''album_concat.flac''),
        render_cmd (cover_of w a) (path_join workdir ''album_concat.flac'') (output_video_of w a)]"

definition planned_cmds :: "world \<Rightarrow> args \<Rightarrow> string list list" where
  "planned_cmds w a = pipeline_cmds w a (source_files w a) (mkdtemp w)"

text \<open>What the \<open>k\<close>-th of them does, counting from 0, in a run entered in state \<open>s\<close>.\<close>

definition planned_result :: "world \<Rightarrow> args \<Rightarrow> state \<Rightarrow> nat \<Rightarrow> int \<times> captured" where
  "planned_result w a s k = proc w (length (spawned s) + k) (planned_cmds w a ! k)"

text \<open>A state to start from: nothing launched, nothing written.\<close>

definition init_state :: state where
  "init_state = \<lparr>spawned = [], files = Map.empty, dirs = [], stdout = [], stderr = []\<rparr>"

section \<open>Example runs\<close>

text \<open>
  A directory \<^verbatim>\<open>/music\<close> with a cover and two tracks, which the glob lists out of order,
  and an encoder that always exits with 0.
\<close>

definition demo_world :: world where
  "demo_world =
     \<lparr>expanduser = (\<lambda>p. p),
      resolve = (\<lambda>p. p),
      path_exists = (\<lambda>p. p = ''/music'' \<or> p = ''/music/cover.png''),
      glob = (\<lambda>root pat. [''/music/b.wav'', ''/music/a.wav'']),
      is_file = (\<lambda>p. True),
      mkdtemp = ''/tmp/tmpk3'',
      proc = (\<lambda>n cmd. (0, Text ''done''))\<rparr>"

definition demo_args :: args where
  "demo_args =
     \<lparr>arg_input = ''/music'', arg_cover = ''cover.png'', arg_pattern = ''*.wav'',
      arg_output = ''FULL-GPU.mp4''\<rparr>"

text \<open>The same, with an encoder whose second invocation exits with 1.\<close>

definition failing_world :: world where
  "failing_world =
     demo_world\<lparr>proc := (\<lambda>n cmd. if n = 1 then (1, Text ''boom'') else (0, Text ''done''))\<rparr>"

text \<open>The same, with an encoder that exits with 0 and whose output does not decode.\<close>

definition undecodable_world :: world where
  "undecodable_world =
     demo_world\<lparr>proc := (\<lambda>n cmd. (0, Undecodable ''invalid start byte''))\<rparr>"



text \<open>A command line without \<^verbatim>\<open>--input\<close>, and one that asks for help.\<close>

definition no_input_cmdline :: cmdline where
  "no_input_cmdline =
     Usage_error (''usage: render_album.py [-h] --input INPUT [--cover COVER] [--pattern PATTERN] [--output OUTPUT]''
                  @ [CHR 0x0A]
                  @ ''render_album.py: error: the following arguments are required: --input/-i''
                  @ [CHR 0x0A])"

definition help_cmdline :: cmdline where
  "help_cmdline = Help_shown (''usage: render_album.py [-h] --input INPUT'' @ [CHR 0x0A])"

text \<open>The same directory without any track.\<close>

definition empty_world :: world where
  "empty_world = demo_world\<lparr>glob := (\<lambda>root pat. [])\<rparr>"

text \<open>No input directory or no cover.\<close>

definition no_dir_world :: world where
  "no_dir_world = demo_world\<lparr>path_exists := (\<lambda>p. False)\<rparr>"

definition no_cover_world :: world where
  "no_cover_world = demo_world\<lparr>path_exists := (\<lambda>p. p = ''/music'')\<rparr>"

text \<open>A state in which one process has been launched already and a manifest is left over.\<close>

definition stale_state :: state where
  "stale_state =
     init_state\<lparr>spawned := [[''ffmpeg'']],
                files := [''/tmp/tmpk3/flac_list.txt'' \<mapsto> ''stale'']\<rparr>"

section \<open>Properties\<close>

subsection \<open>One invocation, one pass of the loop\<close>

lemma run_eq:
  "run w cmd s =
     (if succeeded (proc w (length (spawned s)) cmd)
      then Inr (text_of (snd (proc w (length (spawned s)) cmd)))
      else Inl (run_error (proc w (length (spawned s)) cmd) cmd),
      s\<lparr>spawned := spawned s @ [cmd]\<rparr>)"
  by (simp add: run_def succeeded_def run_error_def text_of_def
           split: prod.splits captured.splits)

lemma transcode_one_ok:
  "succeeded (proc w (length (spawned s)) (transcode_cmd wav (flac_path workdir idx))) \<Longrightarrow>
   transcode_one w workdir lp (idx, wav) fps s =
     (Inr (fps @ [flac_path workdir idx]),
      append_text lp (manifest_line (flac_path workdir idx))
        (s\<lparr>spawned := spawned s @ [transcode_cmd wav (flac_path workdir idx)]\<rparr>))"
  by (simp add: transcode_one_def run_eq Let_def)

lemma transcode_one_fail:
  "\<not> succeeded (proc w (length (spawned s)) (transcode_cmd wav (flac_path workdir idx))) \<Longrightarrow>
   transcode_one w workdir lp (idx, wav) fps s =
     (Inl (run_error (proc w (length (spawned s)) (transcode_cmd wav (flac_path workdir idx)))
             (transcode_cmd wav (flac_path workdir idx))),
      s\<lparr>spawned := spawned s @ [transcode_cmd wav (flac_path workdir idx)]\<rparr>)"
  by (simp add: transcode_one_def run_eq Let_def)

lemma map_upt_shift: "map f [0..<Suc n] = f 0 # map (\<lambda>k. f (Suc k)) [0..<n]"
  by (simp add: map_upt_Suc del: upt_Suc)

lemma if_twice: "(\<lambda>a. if a = p then X else if a = p then Y else g a) = (\<lambda>a. if a = p then X else g a)"
  by (rule ext) simp

lemma loop_all_ok:
  assumes "files s lp = Some old"
    and "\<forall>k < length wavs. succeeded (proc w (length (spawned s) + k)
            (transcode_cmd (wavs ! k) (flac_path workdir (i + k))))"
  shows "transcode_loop w workdir lp (enumerate i wavs) fps s =
     (Inr (fps @ map (\<lambda>k. flac_path workdir (i + k)) [0..<length wavs]),
      s\<lparr>spawned := spawned s @ map (\<lambda>k. transcode_cmd (wavs ! k) (flac_path workdir (i + k))) [0..<length wavs],
        files := (files s)(lp \<mapsto> old
                   @ concat (map (\<lambda>k. manifest_line (flac_path workdir (i + k))) [0..<length wavs]))\<rparr>)"
  using assms
proof (induction wavs arbitrary: i fps s old)
  case Nil
  then have "(files s)(lp \<mapsto> old) = files s" by (simp add: map_upd_triv)
  then show ?case by simp
next
  case (Cons wav wavs)
  have h0: "succeeded (proc w (length (spawned s)) (transcode_cmd wav (flac_path workdir i)))"
    using Cons.prems(2) by force
  let ?s1 = "append_text lp (manifest_line (flac_path workdir i))
        (s\<lparr>spawned := spawned s @ [transcode_cmd wav (flac_path workdir i)]\<rparr>)"
  have hk: "\<forall>k<length wavs. succeeded (proc w (length (spawned ?s1) + k)
              (transcode_cmd (wavs ! k) (flac_path workdir (Suc i + k))))"
    using Cons.prems(2) by (auto simp: append_text_def)
  have f1: "files ?s1 lp = Some (old @ manifest_line (flac_path workdir i))"
    using Cons.prems(1) by (simp add: append_text_def)
  show ?case
    using Cons.IH[OF f1 hk, of "fps @ [flac_path workdir i]"] Cons.prems(1)
    by (simp add: transcode_one_ok[OF h0] append_text_def map_upt_shift if_twice del: upt_Suc)
qed

lemma loop_append:
  "transcode_loop w workdir lp (xs @ ys) fps s =
     (case transcode_loop w workdir lp xs fps s of
        (Inl e, s1) \<Rightarrow> (Inl e, s1)
      | (Inr fps', s1) \<Rightarrow> transcode_loop w workdir lp ys fps' s1)"
  by (induction xs arbitrary: fps s) (auto split: prod.splits sum.splits)

lemma loop_fail_at:
  assumes old: "files s lp = Some old"
    and k: "k < length wavs"
    and ok: "\<forall>j < k. succeeded (proc w (length (spawned s) + j)
               (transcode_cmd (wavs ! j) (flac_path workdir (i + j))))"
    and bad: "\<not> succeeded (proc w (length (spawned s) + k)
               (transcode_cmd (wavs ! k) (flac_path workdir (i + k))))"
  shows "transcode_loop w workdir lp (enumerate i wavs) fps s =
     (Inl (run_error (proc w (length (spawned s) + k)
                        (transcode_cmd (wavs ! k) (flac_path workdir (i + k))))
             (transcode_cmd (wavs ! k) (flac_path workdir (i + k)))),
      s\<lparr>spawned := spawned s @ map (\<lambda>j. transcode_cmd (wavs ! j) (flac_path workdir (i + j))) [0..<Suc k],
        files := (files s)(lp \<mapsto> old
                   @ concat (map (\<lambda>j. manifest_line (flac_path workdir (i + j))) [0..<k]))\<rparr>)"
proof -
  have split: "wavs = take k wavs @ (wavs ! k) # drop (Suc k) wavs"
    using k by (simp add: id_take_nth_drop)
  have len: "length (take k wavs) = k" using k by simp
  have "enumerate i (take k wavs @ (wavs ! k) # drop (Suc k) wavs)
          = enumerate i (take k wavs) @ (i + k, wavs ! k) # enumerate (Suc (i + k)) (drop (Suc k) wavs)"
    by (simp only: enumerate_append_eq len enumerate_simps add_Suc_right)
  then have en: "enumerate i wavs = enumerate i (take k wavs) @ (i + k, wavs ! k) # enumerate (Suc (i + k)) (drop (Suc k) wavs)"
    using split by simp
  have ok': "\<forall>j < length (take k wavs). succeeded (proc w (length (spawned s) + j)
               (transcode_cmd (take k wavs ! j) (flac_path workdir (i + j))))"
    using ok k by simp
  have mp: "map (\<lambda>j. transcode_cmd (take k wavs ! j) (flac_path workdir (i + j))) [0..<k]
          = map (\<lambda>j. transcode_cmd (wavs ! j) (flac_path workdir (i + j))) [0..<k]"
    by simp
  show ?thesis
    apply (subst en)
    apply (simp only: loop_append loop_all_ok[OF old ok'] len mp)
    using bad by (simp add: transcode_one_fail)
qed

subsection \<open>The loop and the Normalizer as a whole\<close>

lemma loop_frame:
  assumes "transcode_loop w workdir lp (enumerate i wavs) fps s = (r, s')"
  shows "dirs s' = dirs s \<and> stdout s' = stdout s \<and> stderr s' = stderr s
       \<and> (\<forall>p. p \<noteq> lp \<longrightarrow> files s' p = files s p)
       \<and> (\<exists>m\<le>length wavs.
             spawned s' = spawned s
               @ map (\<lambda>k. transcode_cmd (wavs ! k) (flac_path workdir (i + k))) [0..<m]
             \<and> ((\<exists>v. r = Inr v) \<longrightarrow> m = length wavs))"
  using assms
proof (induction wavs arbitrary: i fps s)
  case Nil
  then show ?case by auto
next
  case (Cons wav wavs)
  let ?c = "transcode_cmd wav (flac_path workdir i)"
  show ?case
  proof (cases "succeeded (proc w (length (spawned s)) ?c)")
    case False
    then have "s' = s\<lparr>spawned := spawned s @ [?c]\<rparr> \<and> (\<exists>e. r = Inl e)"
      using Cons.prems by (auto simp: transcode_one_fail)
    then have "spawned s' = spawned s @ map (\<lambda>k. transcode_cmd ((wav # wavs) ! k) (flac_path workdir (i + k))) [0..<Suc 0]"
      and "dirs s' = dirs s" "stdout s' = stdout s" "stderr s' = stderr s" "files s' = files s"
      and "\<exists>e. r = Inl e"
      by auto
    then show ?thesis by (intro conjI exI[of _ "Suc 0"]) auto
  next
    case True
    let ?s1 = "append_text lp (manifest_line (flac_path workdir i)) (s\<lparr>spawned := spawned s @ [?c]\<rparr>)"
    have step: "transcode_loop w workdir lp (enumerate (Suc i) wavs) (fps @ [flac_path workdir i]) ?s1 = (r, s')"
      using Cons.prems by (simp add: transcode_one_ok[OF True])
    from Cons.IH[OF step] obtain m where
      fr: "dirs s' = dirs ?s1" "stdout s' = stdout ?s1" "stderr s' = stderr ?s1"
        "\<forall>p. p \<noteq> lp \<longrightarrow> files s' p = files ?s1 p"
      and m: "m \<le> length wavs"
        "spawned s' = spawned ?s1 @ map (\<lambda>k. transcode_cmd (wavs ! k) (flac_path workdir (Suc i + k))) [0..<m]"
        "(\<exists>v. r = Inr v) \<longrightarrow> m = length wavs"
      by blast
    have sp: "spawned s' = spawned s
               @ map (\<lambda>k. transcode_cmd ((wav # wavs) ! k) (flac_path workdir (i + k))) [0..<Suc m]"
      using m(2) by (simp add: append_text_def map_upt_shift del: upt_Suc)
    show ?thesis
      using fr m(1,3) sp
      by (intro conjI exI[of _ "Suc m"]) (auto simp: append_text_def)
  qed
qed

lemma twf_frame:
  assumes "transcode_wavs_to_flacs w wavs workdir s = (r, s')"
  shows "dirs s' = dirs s \<and> stdout s' = stdout s \<and> stderr s' = stderr s
       \<and> (\<forall>p. p \<noteq> path_join workdir ''flac_list.txt'' \<longrightarrow> files s' p = files s p)
       \<and> (\<exists>m\<le>length wavs.
             spawned s' = spawned s
               @ map (\<lambda>k. transcode_cmd (wavs ! k) (flac_path workdir (Suc k))) [0..<m]
             \<and> ((\<exists>v. r = Inr v) \<longrightarrow> m = length wavs))
       \<and> (\<forall>v. r = Inr v \<longrightarrow> snd v = path_join workdir ''flac_list.txt'')"
proof -
  let ?lp = "path_join workdir ''flac_list.txt''"
  obtain r0 where l: "transcode_loop w workdir ?lp (enumerate 1 wavs) [] (write_text ?lp [] s) = (r0, s')"
    and r: "r = (case r0 of Inl e \<Rightarrow> Inl e | Inr fp \<Rightarrow> Inr (fp, ?lp))"
    using assms by (auto simp: transcode_wavs_to_flacs_def Let_def split: prod.splits sum.splits)
  from loop_frame[OF l] r show ?thesis
    by (auto simp: write_text_def split: sum.splits)
qed

lemma twf_all_ok:
  assumes "\<forall>k < length wavs. succeeded (proc w (length (spawned s) + k)
              (transcode_cmd (wavs ! k) (flac_path workdir (Suc k))))"
  shows "transcode_wavs_to_flacs w wavs workdir s =
     (Inr (map (\<lambda>k. flac_path workdir (Suc k)) [0..<length wavs],
           path_join workdir ''flac_list.txt''),
      s\<lparr>spawned := spawned s
           @ map (\<lambda>k. transcode_cmd (wavs ! k) (flac_path workdir (Suc k))) [0..<length wavs],
        files := (files s)(path_join workdir ''flac_list.txt'' \<mapsto>
                   concat (map (\<lambda>k. manifest_line (flac_path workdir (Suc k))) [0..<length wavs]))\<rparr>)"
proof -
  let ?lp = "path_join workdir ''flac_list.txt''"
  let ?s0 = "write_text ?lp [] s"
  have f: "files ?s0 ?lp = Some []" by (simp add: write_text_def)
  have ok: "\<forall>k < length wavs. succeeded (proc w (length (spawned ?s0) + k)
              (transcode_cmd (wavs ! k) (flac_path workdir (1 + k))))"
    using assms by (simp add: write_text_def)
  note L = loop_all_ok[OF f ok, of "[]"]
  show ?thesis
    unfolding transcode_wavs_to_flacs_def Let_def L
    by (simp add: write_text_def)
qed

lemma twf_fail_at:
  assumes k: "k < length wavs"
    and ok: "\<forall>j < k. succeeded (proc w (length (spawned s) + j)
              (transcode_cmd (wavs ! j) (flac_path workdir (Suc j))))"
    and bad: "\<not> succeeded (proc w (length (spawned s) + k)
              (transcode_cmd (wavs ! k) (flac_path workdir (Suc k))))"
  shows "transcode_wavs_to_flacs w wavs workdir s =
     (Inl (run_error (proc w (length (spawned s) + k)
                        (transcode_cmd (wavs ! k) (flac_path workdir (Suc k))))
             (transcode_cmd (wavs ! k) (flac_path workdir (Suc k)))),
      s\<lparr>spawned := spawned s
           @ map (\<lambda>j. transcode_cmd (wavs ! j) (flac_path workdir (Suc j))) [0..<Suc k],
        files := (files s)(path_join workdir ''flac_list.txt'' \<mapsto>
                   concat (map (\<lambda>j. manifest_line (flac_path workdir (Suc j))) [0..<k]))\<rparr>)"
proof -
  let ?lp = "path_join workdir ''flac_list.txt''"
  let ?s0 = "write_text ?lp [] s"
  have f: "files ?s0 ?lp = Some []" by (simp add: write_text_def)
  have ok': "\<forall>j < k. succeeded (proc w (length (spawned ?s0) + j)
              (transcode_cmd (wavs ! j) (flac_path workdir (1 + j))))"
    using ok by (simp add: write_text_def)
  have bad': "\<not> succeeded (proc w (length (spawned ?s0) + k)
              (transcode_cmd (wavs ! k) (flac_path workdir (1 + k))))"
    using bad by (simp add: write_text_def)
  note L = loop_fail_at[OF f k ok' bad', of "[]"]
  show ?thesis
    unfolding transcode_wavs_to_flacs_def Let_def L
    by (simp add: write_text_def del: upt_Suc)
qed

subsection \<open>C4: the process-invocation helper\<close>




subsection \<open>C2: the argument vector of a transcode\<close>

text \<open>
  Claim C2. Whatever the outcome of the Normalizer, the processes it has launched are, in
  order, one per source file from the first on: each is \<^verbatim>\<open>ffmpeg\<close> with the overwrite flag
  \<^verbatim>\<open>-y\<close>, the source as input, the lossless codec \<^verbatim>\<open>flac\<close>, the sample format \<^verbatim>\<open>s32\<close> (which
  the encoder's flac codec stores as 24-bit samples), the sample rate 48000 and, last, the
  numbered intermediate path in the scratch directory. When the Normalizer returns, every
  source file has had its invocation.
\<close>

theorem transcode_argument_vector:
  assumes "transcode_wavs_to_flacs w wavs workdir s = (r, s')"
  shows "\<exists>m\<le>length wavs.
           spawned s' = spawned s
             @ map (\<lambda>k. [''ffmpeg'', ''-y'', ''-i'', wavs ! k, ''-c:a'', ''flac'',
                         ''-sample_fmt'', ''s32'', ''-ar'', ''48000'',
                         path_join workdir (fmt_02d (Suc k) @ ''.flac'')]) [0..<m]
           \<and> ((\<exists>v. r = Inr v) \<longrightarrow> m = length wavs)"
  using twf_frame[OF assms] by (simp add: transcode_cmd_def flac_path_def)

theorem transcode_argument_vector_witness:
  "spawned (snd (transcode_wavs_to_flacs demo_world [''/music/a.wav'', ''/music/b.wav'']
                   ''/tmp/tmpk3'' init_state))
     = [[''ffmpeg'', ''-y'', ''-i'', ''/music/a.wav'', ''-c:a'', ''flac'', ''-sample_fmt'', ''s32'',
         ''-ar'', ''48000'', ''/tmp/tmpk3/01.flac''],
        [''ffmpeg'', ''-y'', ''-i'', ''/music/b.wav'', ''-c:a'', ''flac'', ''-sample_fmt'', ''s32'',
         ''-ar'', ''48000'', ''/tmp/tmpk3/02.flac'']]"
proof -
  let ?X = "transcode_wavs_to_flacs demo_world [''/music/a.wav'', ''/music/b.wav''] ''/tmp/tmpk3'' init_state"
  have x: "?X = (fst ?X, snd ?X)" by simp
  have "fst ?X = Inr ([''/tmp/tmpk3/01.flac'', ''/tmp/tmpk3/02.flac''], ''/tmp/tmpk3/flac_list.txt'')"
    by code_simp
  then have ok: "\<exists>v. fst ?X = Inr v" by simp
  have e1: "path_join ''/tmp/tmpk3'' (fmt_02d (Suc 0) @ ''.flac'') = ''/tmp/tmpk3/01.flac''"
    by code_simp
  have e2: "path_join ''/tmp/tmpk3'' (fmt_02d (Suc (Suc 0)) @ ''.flac'') = ''/tmp/tmpk3/02.flac''"
    by code_simp
  from transcode_argument_vector[OF x] ok show ?thesis
    by (auto simp: e1 e2 init_state_def)
qed

subsection \<open>Numbering\<close>






lemma str_nat_nonempty: "str_nat n \<noteq> []"
  by (subst str_nat.simps) simp

lemma str_nat_digits: "set (str_nat n) \<subseteq> set ''0123456789''"
proof (induction n rule: str_nat.induct)
  case (1 n)
  have d: "digit_char k \<in> set ''0123456789''" if "k < 10" for k
    using that unfolding digit_char_def by (intro nth_mem) simp
  show ?case
  proof (cases "n < 10")
    case True
    then show ?thesis using d[of n] by (subst str_nat.simps) simp
  next
    case False
    then show ?thesis using 1 d[of "n mod 10"] by (subst str_nat.simps) simp
  qed
qed

lemma fmt_02d_digits: "set (fmt_02d n) \<subseteq> set ''0123456789''"
  using str_nat_digits[of n] by (auto simp: fmt_02d_def Let_def)

lemma fmt_02d_nonempty: "fmt_02d n \<noteq> []"
  by (simp add: fmt_02d_def Let_def str_nat_nonempty)

lemma fmt_02d_relative: "\<not> is_absolute (fmt_02d n @ ext)"
proof -
  have "hd (fmt_02d n) \<in> set ''0123456789''"
    using fmt_02d_digits[of n] fmt_02d_nonempty[of n] hd_in_set by blast
  then have "hd (fmt_02d n) \<noteq> CHR ''/''" by auto
  then show ?thesis using fmt_02d_nonempty[of n] by (simp add: is_absolute_def)
qed




subsection \<open>The order of paths\<close>














subsection \<open>C5: numbering, order and the manifest\<close>




subsection \<open>C10: the manifest is truncated, then grows by unescaped lines\<close>

lemma quoted_field_manifest_line:
  "quoted_field (manifest_line p) = takeWhile (\<lambda>c. c \<noteq> CHR 0x27) p"
proof -
  have d: "dropWhile (\<lambda>c. c \<noteq> CHR 0x27) (manifest_line p) = CHR 0x27 # p @ [CHR 0x27, CHR 0x0A]"
    by (simp add: manifest_line_def)
  have "takeWhile (\<lambda>c. c \<noteq> CHR 0x27) (p @ [CHR 0x27, CHR 0x0A]) = takeWhile (\<lambda>c. c \<noteq> CHR 0x27) p"
  proof (cases "CHR 0x27 \<in> set p")
    case True
    then show ?thesis by (simp add: takeWhile_append1)
  next
    case False
    then have t: "takeWhile (\<lambda>c. c \<noteq> CHR 0x27) p = p"
      by (intro takeWhile_eq_all_conv[THEN iffD2]) auto
    have a: "takeWhile (\<lambda>c. c \<noteq> CHR 0x27) (p @ [CHR 0x27, CHR 0x0A])
               = p @ takeWhile (\<lambda>c. c \<noteq> CHR 0x27) [CHR 0x27, CHR 0x0A]"
      using False by (intro takeWhile_append2) auto
    show ?thesis unfolding a t by simp
  qed
  then show ?thesis
    by (simp add: quoted_field_def d)
qed

text \<open>
  Claim C10. The Normalizer truncates the manifest before its first transcode and every
  successful transcode of the run appends exactly one line to it: when the first \<open>k\<close>
  transcodes succeed and the next one, if there is one, does not, then \<open>k\<close> or \<open>k + 1\<close>
  transcodes have been launched and the manifest holds exactly \<open>k\<close> lines, whatever it held
  before the run (none when the first transcode fails). The line of the \<open>j\<close>-th
  intermediate is the word \<^verbatim>\<open>file\<close>, a space, a single quote, the path of the intermediate,
  a single quote and a line break. The path is written as it is, with no escaping: the
  quoted field of the line is the path exactly when the path holds no single quote, so a
  path with a single quote gives a line that does not denote it.
\<close>

theorem manifest_lines_unescaped:
  assumes "list_path = path_join workdir ''flac_list.txt''"
  shows "(\<forall>k\<le>length wavs.
            (\<forall>j<k. succeeded (transcode_result w s wavs workdir j))
            \<and> (k < length wavs \<longrightarrow> \<not> succeeded (transcode_result w s wavs workdir k)) \<longrightarrow>
            files (snd (transcode_wavs_to_flacs w wavs workdir s)) list_path
              = Some (concat (map (\<lambda>j. ''file '' @ [CHR 0x27]
                                        @ path_join workdir (fmt_02d (Suc j) @ ''.flac'')
                                        @ [CHR 0x27] @ [CHR 0x0A]) [0..<k]))
            \<and> spawned (snd (transcode_wavs_to_flacs w wavs workdir s))
              = spawned s
                @ map (\<lambda>j. transcode_cmd (wavs ! j) (path_join workdir (fmt_02d (Suc j) @ ''.flac'')))
                    [0..<(if k < length wavs then Suc k else k)])
       \<and> manifest_line p = ''file '' @ [CHR 0x27] @ p @ [CHR 0x27] @ [CHR 0x0A]
       \<and> (quoted_field (manifest_line p) = p \<longleftrightarrow> CHR 0x27 \<notin> set p)"
proof (intro conjI allI impI)
  fix k
  assume k: "k \<le> length wavs"
    and h: "(\<forall>j<k. succeeded (transcode_result w s wavs workdir j))
            \<and> (k < length wavs \<longrightarrow> \<not> succeeded (transcode_result w s wavs workdir k))"
  have ok: "\<forall>j < k. succeeded (proc w (length (spawned s) + j)
              (transcode_cmd (wavs ! j) (flac_path workdir (Suc j))))"
    using h by (simp add: transcode_result_def)
  let ?X = "transcode_wavs_to_flacs w wavs workdir s"
  have "files (snd ?X) list_path
              = Some (concat (map (\<lambda>j. ''file '' @ [CHR 0x27]
                                        @ path_join workdir (fmt_02d (Suc j) @ ''.flac'')
                                        @ [CHR 0x27] @ [CHR 0x0A]) [0..<k]))
        \<and> spawned (snd ?X)
              = spawned s
                @ map (\<lambda>j. transcode_cmd (wavs ! j) (path_join workdir (fmt_02d (Suc j) @ ''.flac'')))
                    [0..<(if k < length wavs then Suc k else k)]"
  proof (cases "k < length wavs")
    case True
    then have bad: "\<not> succeeded (proc w (length (spawned s) + k)
              (transcode_cmd (wavs ! k) (flac_path workdir (Suc k))))"
      using h by (simp add: transcode_result_def)
    show ?thesis
      unfolding twf_fail_at[OF True ok bad] assms using True
      by (simp add: flac_path_def manifest_line_def del: upt_Suc)
  next
    case False
    then have kn: "k = length wavs" using k by simp
    have ok': "\<forall>j < length wavs. succeeded (proc w (length (spawned s) + j)
              (transcode_cmd (wavs ! j) (flac_path workdir (Suc j))))"
      using ok kn by simp
    show ?thesis
      unfolding twf_all_ok[OF ok'] assms using kn
      by (simp add: flac_path_def manifest_line_def)
  qed
  then show "files (snd ?X) list_path
              = Some (concat (map (\<lambda>j. ''file '' @ [CHR 0x27]
                                        @ path_join workdir (fmt_02d (Suc j) @ ''.flac'')
                                        @ [CHR 0x27] @ [CHR 0x0A]) [0..<k]))"
    and "spawned (snd ?X)
              = spawned s
                @ map (\<lambda>j. transcode_cmd (wavs ! j) (path_join workdir (fmt_02d (Suc j) @ ''.flac'')))
                    [0..<(if k < length wavs then Suc k else k)]"
    by simp_all
next
  show "manifest_line p = ''file '' @ [CHR 0x27] @ p @ [CHR 0x27] @ [CHR 0x0A]"
    by (simp add: manifest_line_def)
  show "quoted_field (manifest_line p) = p \<longleftrightarrow> CHR 0x27 \<notin> set p"
    unfolding quoted_field_manifest_line takeWhile_eq_all_conv by auto
qed

theorem manifest_lines_unescaped_witness:
  "files stale_state ''/tmp/tmpk3/flac_list.txt'' = Some ''stale''
   \<and> files (snd (transcode_wavs_to_flacs demo_world [''/music/a.wav'', ''/music/b.wav'']
                   ''/tmp/tmpk3'' stale_state)) ''/tmp/tmpk3/flac_list.txt''
       = Some (''file '' @ [CHR 0x27] @ ''/tmp/tmpk3/01.flac'' @ [CHR 0x27, CHR 0x0A]
               @ ''file '' @ [CHR 0x27] @ ''/tmp/tmpk3/02.flac'' @ [CHR 0x27, CHR 0x0A])
   \<and> files (snd (transcode_wavs_to_flacs failing_world [''/music/a.wav'', ''/music/b.wav'']
                   ''/tmp/tmpk3'' init_state)) ''/tmp/tmpk3/flac_list.txt''
       = Some (''file '' @ [CHR 0x27] @ ''/tmp/tmpk3/01.flac'' @ [CHR 0x27, CHR 0x0A])
   \<and> length (spawned (snd (transcode_wavs_to_flacs failing_world [''/music/a.wav'', ''/music/b.wav'']
                   ''/tmp/tmpk3'' init_state))) = 2
   \<and> files (snd (transcode_wavs_to_flacs failing_world [''/music/a.wav'', ''/music/b.wav'']
                   ''/tmp/tmpk3'' stale_state)) ''/tmp/tmpk3/flac_list.txt''
       = Some []
   \<and> quoted_field (manifest_line (''/tmp/it'' @ [CHR 0x27] @ ''s/01.flac''))
       \<noteq> ''/tmp/it'' @ [CHR 0x27] @ ''s/01.flac''
   \<and> quoted_field (manifest_line ''/tmp/tmpk3/01.flac'') = ''/tmp/tmpk3/01.flac''"
proof -
  let ?lp = "''/tmp/tmpk3/flac_list.txt''"
  let ?wavs = "[''/music/a.wav'', ''/music/b.wav'']"
  have lp: "?lp = path_join ''/tmp/tmpk3'' ''flac_list.txt''" by code_simp
  have e1: "path_join ''/tmp/tmpk3'' (fmt_02d (Suc 0) @ ''.flac'') = ''/tmp/tmpk3/01.flac''"
    by code_simp
  have e2: "path_join ''/tmp/tmpk3'' (fmt_02d (Suc (Suc 0)) @ ''.flac'') = ''/tmp/tmpk3/02.flac''"
    by code_simp
  have s0: "files stale_state ?lp = Some ''stale''"
    by (simp add: stale_state_def init_state_def)
  note t = manifest_lines_unescaped[OF lp]
  have h2: "(\<forall>j<2. succeeded (transcode_result demo_world stale_state ?wavs ''/tmp/tmpk3'' j))
            \<and> (2 < length ?wavs \<longrightarrow>
                 \<not> succeeded (transcode_result demo_world stale_state ?wavs ''/tmp/tmpk3'' 2))"
    by (simp add: transcode_result_def demo_world_def succeeded_def)
  have k2: "(2::nat) \<le> length ?wavs" by simp
  note a = t[of ?wavs demo_world stale_state, THEN conjunct1, THEN spec, THEN mp, THEN mp,
             OF k2 h2, THEN conjunct1]
  have up2: "[0..<2] = [0, Suc 0]" by (simp add: upt_rec)
  have a': "files (snd (transcode_wavs_to_flacs demo_world ?wavs ''/tmp/tmpk3'' stale_state)) ?lp
       = Some (''file '' @ [CHR 0x27] @ ''/tmp/tmpk3/01.flac'' @ [CHR 0x27, CHR 0x0A]
               @ ''file '' @ [CHR 0x27] @ ''/tmp/tmpk3/02.flac'' @ [CHR 0x27, CHR 0x0A])"
    using a unfolding up2 by (simp add: e1 e2)
  have h1: "(\<forall>j<1. succeeded (transcode_result failing_world init_state ?wavs ''/tmp/tmpk3'' j))
            \<and> (1 < length ?wavs \<longrightarrow>
                 \<not> succeeded (transcode_result failing_world init_state ?wavs ''/tmp/tmpk3'' 1))"
    by (simp add: transcode_result_def failing_world_def demo_world_def init_state_def succeeded_def)
  have k1: "(1::nat) \<le> length ?wavs" by simp
  note b = t[of ?wavs failing_world init_state, THEN conjunct1, THEN spec, THEN mp, THEN mp,
             OF k1 h1]
  have b1: "files (snd (transcode_wavs_to_flacs failing_world ?wavs ''/tmp/tmpk3'' init_state)) ?lp
       = Some (''file '' @ [CHR 0x27] @ ''/tmp/tmpk3/01.flac'' @ [CHR 0x27, CHR 0x0A])"
    using b[THEN conjunct1] by (simp add: e1)
  have b2: "length (spawned (snd (transcode_wavs_to_flacs failing_world ?wavs ''/tmp/tmpk3'' init_state))) = 2"
    using b[THEN conjunct2] by (simp add: init_state_def)
  have h0: "(\<forall>j<0. succeeded (transcode_result failing_world stale_state ?wavs ''/tmp/tmpk3'' j))
            \<and> (0 < length ?wavs \<longrightarrow>
                 \<not> succeeded (transcode_result failing_world stale_state ?wavs ''/tmp/tmpk3'' 0))"
    by (simp add: transcode_result_def failing_world_def demo_world_def stale_state_def
                  init_state_def succeeded_def)
  have k0: "(0::nat) \<le> length ?wavs" by simp
  note c = t[of ?wavs failing_world stale_state, THEN conjunct1, THEN spec, THEN mp, THEN mp,
             OF k0 h0, THEN conjunct1]
  have c': "files (snd (transcode_wavs_to_flacs failing_world ?wavs ''/tmp/tmpk3'' stale_state)) ?lp
       = Some []"
    using c by simp
  note q = t[THEN conjunct2, THEN conjunct2]
  have q1: "quoted_field (manifest_line (''/tmp/it'' @ [CHR 0x27] @ ''s/01.flac''))
       \<noteq> ''/tmp/it'' @ [CHR 0x27] @ ''s/01.flac''"
    using q[of "''/tmp/it'' @ [CHR 0x27] @ ''s/01.flac''"] by simp
  have q2: "quoted_field (manifest_line ''/tmp/tmpk3/01.flac'') = ''/tmp/tmpk3/01.flac''"
    using q[of "''/tmp/tmpk3/01.flac''"] by simp
  show ?thesis using s0 a' b1 b2 c' q1 q2 by (intro conjI)
qed

subsection \<open>Suffixes and letter case\<close>

lemma lower_char_m: "lower_char c = CHR ''m'' \<longleftrightarrow> c = CHR ''m'' \<or> c = CHR ''M''"
  by (simp add: lower_char_def)

lemma lower_char_p: "lower_char c = CHR ''p'' \<longleftrightarrow> c = CHR ''p'' \<or> c = CHR ''P''"
  by (simp add: lower_char_def)

lemma lower_char_dot: "lower_char c = CHR ''.'' \<longleftrightarrow> c = CHR ''.''"
  by (simp add: lower_char_def)

lemma lower_char_4: "lower_char c = CHR ''4'' \<longleftrightarrow> c = CHR ''4''"
  by (simp add: lower_char_def)

lemma lower_mp4: "lower s = ''.mp4'' \<longleftrightarrow> s \<in> {''.mp4'', ''.mP4'', ''.Mp4'', ''.MP4''}"
  unfolding lower_def
  by (auto simp: map_eq_Cons_conv lower_char_m lower_char_p lower_char_dot lower_char_4)

lemma rfind_None: "rfind c xs = None \<longleftrightarrow> c \<notin> set xs"
  by (induction xs) (auto split: option.splits)

lemma rfind_append:
  "rfind c (xs @ ys) =
     (case rfind c ys of Some i \<Rightarrow> Some (length xs + i) | None \<Rightarrow> rfind c xs)"
  by (induction xs) (auto split: option.splits)

lemma path_name_join:
  assumes "CHR ''/'' \<notin> set n"
  shows "path_name (d @ ''/'' @ n) = n"
proof -
  have "takeWhile (\<lambda>c. c \<noteq> CHR ''/'') (rev n @ CHR ''/'' # rev d) = rev n"
    using assms by (intro takeWhile_tail[THEN trans]) auto
  then show ?thesis by (simp add: path_name_def)
qed

lemma path_suffix_ext:
  assumes "stem \<noteq> []" "e \<noteq> []" "CHR ''/'' \<notin> set stem" "CHR ''/'' \<notin> set e" "CHR ''.'' \<notin> set e"
  shows "path_suffix (d @ ''/'' @ stem @ ''.'' @ e) = ''.'' @ e"
proof -
  have n: "path_name (d @ ''/'' @ stem @ ''.'' @ e) = stem @ ''.'' @ e"
    using assms by (intro path_name_join) auto
  have "rfind CHR ''.'' e = None" using assms(5) by (simp add: rfind_None)
  then have "rfind CHR ''.'' (CHR ''.'' # e) = Some 0" by simp
  then have r: "rfind CHR ''.'' (stem @ ''.'' @ e) = Some (length stem)"
    by (simp add: rfind_append)
  show ?thesis
    unfolding path_suffix_def n Let_def r using assms(1,2) by simp
qed

subsection \<open>C6: the audio branch of the Renderer\<close>

text \<open>
  Claim C6. The argument vector of the Renderer is fixed but for the cover, the audio, the
  output path and the audio options, and the audio options are decided by the suffix of the
  output path alone: when the lowercased suffix is \<^verbatim>\<open>.mp4\<close> they select the AAC codec at
  320k, for every other suffix they select stream copy. The Renderer launches exactly
  this vector.
\<close>

theorem render_audio_branch:
  "render_cmd cover audio output =
     [''ffmpeg'', ''-y'', ''-loop'', ''1'', ''-framerate'', ''30'', ''-i'', cover, ''-i'', audio,
      ''-c:v'', ''h264_nvenc'', ''-preset'', ''p7'', ''-rc'', ''vbr_hq'', ''-cq'', ''17'',
      ''-b:v'', ''8M'', ''-maxrate'', ''12M'', ''-bufsize'', ''24M'',
      ''-profile:v'', ''high'', ''-pix_fmt'', ''yuv420p'', ''-r'', ''30'']
     @ (if lower (path_suffix output) = ''.mp4''
        then [''-c:a'', ''aac'', ''-b:a'', ''320k'']
        else [''-c:a'', ''copy''])
     @ [''-shortest'', ''-movflags'', ''+faststart'', output]
   \<and> spawned (snd (render_video w cover audio output s))
       = spawned s @ [render_cmd cover audio output]"
proof -
  have fr: "str_nat FRAMERATE = ''30''" by code_simp
  show ?thesis
    by (simp add: render_cmd_def audio_codec_def fr render_video_def run_eq Let_def)
qed

theorem render_audio_branch_witness:
  "render_cmd ''/music/cover.png'' ''/tmp/tmpk3/album_concat.flac'' ''/music/album.mp4'' =
     [''ffmpeg'', ''-y'', ''-loop'', ''1'', ''-framerate'', ''30'', ''-i'', ''/music/cover.png'',
      ''-i'', ''/tmp/tmpk3/album_concat.flac'',
      ''-c:v'', ''h264_nvenc'', ''-preset'', ''p7'', ''-rc'', ''vbr_hq'', ''-cq'', ''17'',
      ''-b:v'', ''8M'', ''-maxrate'', ''12M'', ''-bufsize'', ''24M'',
      ''-profile:v'', ''high'', ''-pix_fmt'', ''yuv420p'', ''-r'', ''30'',
      ''-c:a'', ''aac'', ''-b:a'', ''320k'',
      ''-shortest'', ''-movflags'', ''+faststart'', ''/music/album.mp4'']
   \<and> render_cmd ''/music/cover.png'' ''/tmp/tmpk3/album_concat.flac'' ''/music/album.flac'' =
     [''ffmpeg'', ''-y'', ''-loop'', ''1'', ''-framerate'', ''30'', ''-i'', ''/music/cover.png'',
      ''-i'', ''/tmp/tmpk3/album_concat.flac'',
      ''-c:v'', ''h264_nvenc'', ''-preset'', ''p7'', ''-rc'', ''vbr_hq'', ''-cq'', ''17'',
      ''-b:v'', ''8M'', ''-maxrate'', ''12M'', ''-bufsize'', ''24M'',
      ''-profile:v'', ''high'', ''-pix_fmt'', ''yuv420p'', ''-r'', ''30'',
      ''-c:a'', ''copy'',
      ''-shortest'', ''-movflags'', ''+faststart'', ''/music/album.flac'']
   \<and> render_cmd ''/music/cover.png'' ''/tmp/tmpk3/album_concat.flac'' ''/music/album.mkv'' =
     [''ffmpeg'', ''-y'', ''-loop'', ''1'', ''-framerate'', ''30'', ''-i'', ''/music/cover.png'',
      ''-i'', ''/tmp/tmpk3/album_concat.flac'',
      ''-c:v'', ''h264_nvenc'', ''-preset'', ''p7'', ''-rc'', ''vbr_hq'', ''-cq'', ''17'',
      ''-b:v'', ''8M'', ''-maxrate'', ''12M'', ''-bufsize'', ''24M'',
      ''-profile:v'', ''high'', ''-pix_fmt'', ''yuv420p'', ''-r'', ''30'',
      ''-c:a'', ''copy'',
      ''-shortest'', ''-movflags'', ''+faststart'', ''/music/album.mkv'']"
proof -
  have a: "lower (path_suffix ''/music/album.mp4'') = ''.mp4''" by code_simp
  have b: "lower (path_suffix ''/music/album.flac'') = ''.flac''" by code_simp
  have c: "lower (path_suffix ''/music/album.mkv'') = ''.mkv''" by code_simp
  show ?thesis
    using render_audio_branch[of "''/music/cover.png''" "''/tmp/tmpk3/album_concat.flac''" "''/music/album.mp4''", THEN conjunct1]
      render_audio_branch[of "''/music/cover.png''" "''/tmp/tmpk3/album_concat.flac''" "''/music/album.flac''", THEN conjunct1]
      render_audio_branch[of "''/music/cover.png''" "''/tmp/tmpk3/album_concat.flac''" "''/music/album.mkv''", THEN conjunct1]
    by (simp add: a b c)
qed

subsection \<open>C9: the MP4 test ignores letter case\<close>

text \<open>
  Claim C9. The AAC options are selected exactly when the suffix of the output path is one
  of the four letter-case variants of \<^verbatim>\<open>.mp4\<close>, and the copy options exactly when it is
  not. An output path whose last component is a non-empty stem followed by one of the four
  variants has that variant as its suffix, and so gets the AAC options.
\<close>

theorem mp4_detection_case_insensitive:
  "(audio_codec output = [''-c:a'', ''aac'', ''-b:a'', ''320k'']
      \<longleftrightarrow> path_suffix output \<in> {''.mp4'', ''.mP4'', ''.Mp4'', ''.MP4''})
   \<and> (audio_codec output = [''-c:a'', ''copy'']
      \<longleftrightarrow> path_suffix output \<notin> {''.mp4'', ''.mP4'', ''.Mp4'', ''.MP4''})
   \<and> (stem \<noteq> [] \<and> CHR ''/'' \<notin> set stem \<and> ext \<in> {''.mp4'', ''.mP4'', ''.Mp4'', ''.MP4''} \<longrightarrow>
        path_suffix (dir @ ''/'' @ stem @ ext) = ext
        \<and> audio_codec (dir @ ''/'' @ stem @ ext) = [''-c:a'', ''aac'', ''-b:a'', ''320k''])"
proof (intro conjI impI)
  show "audio_codec output = [''-c:a'', ''aac'', ''-b:a'', ''320k'']
      \<longleftrightarrow> path_suffix output \<in> {''.mp4'', ''.mP4'', ''.Mp4'', ''.MP4''}"
    unfolding lower_mp4[symmetric] by (simp add: audio_codec_def)
  show "audio_codec output = [''-c:a'', ''copy'']
      \<longleftrightarrow> path_suffix output \<notin> {''.mp4'', ''.mP4'', ''.Mp4'', ''.MP4''}"
    unfolding lower_mp4[symmetric] by (simp add: audio_codec_def)
next
  assume h: "stem \<noteq> [] \<and> CHR ''/'' \<notin> set stem \<and> ext \<in> {''.mp4'', ''.mP4'', ''.Mp4'', ''.MP4''}"
  then obtain e where e: "ext = ''.'' @ e" "e \<noteq> []" "CHR ''/'' \<notin> set e" "CHR ''.'' \<notin> set e"
    by auto
  show sfx: "path_suffix (dir @ ''/'' @ stem @ ext) = ext"
    unfolding e(1) using h e(2-4) by (intro path_suffix_ext) auto
  have "lower ext = ''.mp4''" using h lower_mp4 by blast
  with sfx show "audio_codec (dir @ ''/'' @ stem @ ext) = [''-c:a'', ''aac'', ''-b:a'', ''320k'']"
    by (simp add: audio_codec_def)
qed

theorem mp4_detection_case_insensitive_witness:
  "audio_codec ''/music/ALBUM.MP4'' = [''-c:a'', ''aac'', ''-b:a'', ''320k'']
   \<and> audio_codec ''/music/album.Mp4'' = [''-c:a'', ''aac'', ''-b:a'', ''320k'']
   \<and> audio_codec ''/music/album.mp3'' = [''-c:a'', ''copy'']
   \<and> audio_codec ''/music/.mp4'' = [''-c:a'', ''copy'']"
proof -
  note t = mp4_detection_case_insensitive
  have h1: "''ALBUM'' \<noteq> [] \<and> CHR ''/'' \<notin> set ''ALBUM'' \<and> ''.MP4'' \<in> {''.mp4'', ''.mP4'', ''.Mp4'', ''.MP4''}"
    by simp
  have h2: "''album'' \<noteq> [] \<and> CHR ''/'' \<notin> set ''album'' \<and> ''.Mp4'' \<in> {''.mp4'', ''.mP4'', ''.Mp4'', ''.MP4''}"
    by simp
  have a: "audio_codec (''/music'' @ ''/'' @ ''ALBUM'' @ ''.MP4'') = [''-c:a'', ''aac'', ''-b:a'', ''320k'']"
    using t[THEN conjunct2, THEN conjunct2, THEN mp, OF h1] by blast
  have b: "audio_codec (''/music'' @ ''/'' @ ''album'' @ ''.Mp4'') = [''-c:a'', ''aac'', ''-b:a'', ''320k'']"
    using t[THEN conjunct2, THEN conjunct2, THEN mp, OF h2] by blast
  have s3: "path_suffix ''/music/album.mp3'' = ''.mp3''" by code_simp
  have s4: "path_suffix ''/music/.mp4'' = []" by code_simp
  have c: "audio_codec ''/music/album.mp3'' = [''-c:a'', ''copy'']"
    using t[of "''/music/album.mp3''", THEN conjunct2, THEN conjunct1] by (simp add: s3)
  have d: "audio_codec ''/music/.mp4'' = [''-c:a'', ''copy'']"
    using t[of "''/music/.mp4''", THEN conjunct2, THEN conjunct1] by (simp add: s4)
  show ?thesis using a b c d by simp
qed

subsection \<open>The pipeline and main, case by case\<close>

lemma loop_keeps_manifest:
  "files s lp \<noteq> None \<Longrightarrow> files (snd (transcode_loop w workdir lp xs fps s)) lp \<noteq> None"
proof (induction xs arbitrary: fps s)
  case Nil
  then show ?case by simp
next
  case (Cons iw xs)
  obtain r1 s1 where one: "transcode_one w workdir lp iw fps s = (r1, s1)" by fastforce
  then have f1: "files s1 lp \<noteq> None"
    using Cons.prems
    by (auto simp: transcode_one_def run_eq Let_def append_text_def split: if_splits)
  show ?case
  proof (cases r1)
    case (Inl e)
    then show ?thesis using one f1 by simp
  next
    case (Inr fps')
    then show ?thesis using one Cons.IH[OF f1] by simp
  qed
qed

lemma twf_manifest_exists:
  "files (snd (transcode_wavs_to_flacs w wavs workdir s)) (path_join workdir ''flac_list.txt'') \<noteq> None"
proof -
  let ?lp = "path_join workdir ''flac_list.txt''"
  have "files (write_text ?lp [] s) ?lp \<noteq> None" by (simp add: write_text_def)
  from loop_keeps_manifest[OF this, of w workdir "enumerate 1 wavs" "[]"]
  show ?thesis
    by (auto simp: transcode_wavs_to_flacs_def Let_def split: prod.splits sum.splits)
qed

lemma pipeline_cases:
  assumes "pipeline w a wavs workdir s = (r, s')"
  obtains (normalizer_failed) e where
      "transcode_wavs_to_flacs w wavs workdir s = (Inl e, s')"
      "r = Inl e"
  | (concat_failed) flacs s1 e where
      "transcode_wavs_to_flacs w wavs workdir s = (Inr (flacs, path_join workdir ''flac_list.txt''), s1)"
      "r = Inl e"
      "s' = s1\<lparr>spawned := spawned s1
              @ [concat_cmd (path_join workdir ''flac_list.txt'') (path_join workdir ''album_concat.flac'')]\<rparr>"
  | (render_failed) flacs s1 e where
      "transcode_wavs_to_flacs w wavs workdir s = (Inr (flacs, path_join workdir ''flac_list.txt''), s1)"
      "r = Inl e"
      "s' = s1\<lparr>spawned := spawned s1
              @ [concat_cmd (path_join workdir ''flac_list.txt'') (path_join workdir ''album_concat.flac''),
                 render_cmd (cover_of w a) (path_join workdir ''album_concat.flac'') (output_video_of w a)],
             stdout := stdout s1 @ ''Rendering final video -> '' @ path_name (output_video_of w a)
                         @ [CHR 0x0A]\<rparr>"
  | (rendered) flacs s1 where
      "transcode_wavs_to_flacs w wavs workdir s = (Inr (flacs, path_join workdir ''flac_list.txt''), s1)"
      "r = Inr (output_video_of w a)"
      "s' = s1\<lparr>spawned := spawned s1
              @ [concat_cmd (path_join workdir ''flac_list.txt'') (path_join workdir ''album_concat.flac''),
                 render_cmd (cover_of w a) (path_join workdir ''album_concat.flac'') (output_video_of w a)],
             stdout := stdout s1 @ ''Rendering final video -> '' @ path_name (output_video_of w a)
                         @ [CHR 0x0A]\<rparr>"
proof (cases "transcode_wavs_to_flacs w wavs workdir s")
  case (Pair r1 s1)
  note fr1 = twf_frame[OF Pair]
  show ?thesis
  proof (cases r1)
    case (Inl e)
    then show ?thesis
      using normalizer_failed[of e] assms Pair by (simp add: pipeline_def)
  next
    case (Inr v)
    then obtain flacs where v: "v = (flacs, path_join workdir ''flac_list.txt'')"
      using fr1 by (cases v) auto
    let ?c2 = "concat_cmd (path_join workdir ''flac_list.txt'') (path_join workdir ''album_concat.flac'')"
    let ?c3 = "render_cmd (cover_of w a) (path_join workdir ''album_concat.flac'') (output_video_of w a)"
    let ?s2 = "s1\<lparr>spawned := spawned s1 @ [?c2]\<rparr>"
    let ?s3 = "print (''Rendering final video -> '' @ path_name (output_video_of w a)) ?s2"
    show ?thesis
    proof (cases "succeeded (proc w (length (spawned s1)) ?c2)")
      case False
      then show ?thesis
        using assms Pair Inr v concat_failed[of flacs s1]
        by (auto simp: pipeline_def concat_flacs_def run_eq Let_def)
    next
      case True
      note c2ok = this
      show ?thesis
      proof (cases "succeeded (proc w (length (spawned ?s3)) ?c3)")
        case False
        then show ?thesis
          using assms Pair Inr v c2ok render_failed[of flacs s1]
          by (auto simp: pipeline_def concat_flacs_def render_video_def run_eq Let_def print_def)
      next
        case True
        then show ?thesis
          using assms Pair Inr v c2ok rendered[of flacs s1]
          by (auto simp: pipeline_def concat_flacs_def render_video_def run_eq Let_def print_def)
      qed
    qed
  qed
qed

lemma main_validated:
  assumes "path_exists w (root_of w a)" "path_exists w (cover_of w a)" "source_files w a \<noteq> []"
  shows "main w a s =
     (case pipeline w a (source_files w a) (mkdtemp w)
             (create_tmpdir (mkdtemp w)
                (print (''Found '' @ str_nat (length (source_files w a))
                         @ '' WAV files. Concatenating audio...'') s)) of
        (Inl e, s3) \<Rightarrow> (Inl e, cleanup (mkdtemp w) s3)
      | (Inr output_video, s3) \<Rightarrow>
          (Inr (), print (''Output video: '' @ output_video)
                     (print ''Done.'' (cleanup (mkdtemp w) s3))))"
  using assms by (simp add: main_def ensure_exists_def Let_def)

lemma main_no_root:
  "\<not> path_exists w (root_of w a) \<Longrightarrow>
   main w a s = (Inl (FileNotFoundError (''Missing input directory: '' @ root_of w a)), s)"
  by (simp add: main_def ensure_exists_def)

lemma main_no_cover:
  "path_exists w (root_of w a) \<Longrightarrow> \<not> path_exists w (cover_of w a) \<Longrightarrow>
   main w a s = (Inl (FileNotFoundError (''Missing cover image: '' @ cover_of w a)), s)"
  by (simp add: main_def ensure_exists_def)

lemma main_no_inputs:
  "path_exists w (root_of w a) \<Longrightarrow> path_exists w (cover_of w a) \<Longrightarrow> source_files w a = [] \<Longrightarrow>
   main w a s = (Inl (SystemExit ''No WAV files found.''), s)"
  by (simp add: main_def ensure_exists_def)

subsection \<open>C3: nothing is launched before the inputs are validated\<close>

text \<open>
  Claim C3. When the input directory does not exist, \<open>main\<close> raises \<open>FileNotFoundError\<close>
  (the spec's \<open>MissingPathError\<close>) naming it, in the state it was entered in: no process
  has been launched. When the cover does not exist it raises \<open>FileNotFoundError\<close> in the
  entry state too, naming the cover when the directory exists. When no regular file matches
  the pattern it raises in the entry state, and what it raises is \<open>SystemExit\<close> with the
  message \<^verbatim>\<open>No WAV files found.\<close> (the spec's \<open>NoInputsError\<close>) when both paths exist. So a
  run that has launched any process has passed all three tests.
\<close>

theorem no_process_before_validation:
  "(\<not> path_exists w (root_of w a) \<longrightarrow>
      main w a s = (Inl (FileNotFoundError (''Missing input directory: '' @ root_of w a)), s))
   \<and> (\<not> path_exists w (cover_of w a) \<longrightarrow>
      (\<exists>m. main w a s = (Inl (FileNotFoundError m), s)))
   \<and> (path_exists w (root_of w a) \<and> \<not> path_exists w (cover_of w a) \<longrightarrow>
      main w a s = (Inl (FileNotFoundError (''Missing cover image: '' @ cover_of w a)), s))
   \<and> (source_files w a = [] \<longrightarrow> (\<exists>e. main w a s = (Inl e, s)))
   \<and> (path_exists w (root_of w a) \<and> path_exists w (cover_of w a) \<and> source_files w a = [] \<longrightarrow>
      main w a s = (Inl (SystemExit ''No WAV files found.''), s))
   \<and> (spawned (snd (main w a s)) \<noteq> spawned s \<longrightarrow>
      path_exists w (root_of w a) \<and> path_exists w (cover_of w a) \<and> source_files w a \<noteq> [])"
proof -
  consider (no_root) "\<not> path_exists w (root_of w a)"
    | (no_cover) "path_exists w (root_of w a)" "\<not> path_exists w (cover_of w a)"
    | (no_inputs) "path_exists w (root_of w a)" "path_exists w (cover_of w a)" "source_files w a = []"
    | (valid) "path_exists w (root_of w a)" "path_exists w (cover_of w a)" "source_files w a \<noteq> []"
    by blast
  then show ?thesis
  proof cases
    case no_root
    then show ?thesis using main_no_root[of w a s] by simp
  next
    case no_cover
    then show ?thesis using main_no_cover[of w a s] by simp
  next
    case no_inputs
    then show ?thesis using main_no_inputs[of w a s] by simp
  next
    case valid
    then show ?thesis by simp
  qed
qed

theorem no_process_before_validation_witness:
  "main no_dir_world demo_args init_state
     = (Inl (FileNotFoundError ''Missing input directory: /music''), init_state)
   \<and> main no_cover_world demo_args init_state
     = (Inl (FileNotFoundError ''Missing cover image: /music/cover.png''), init_state)
   \<and> main empty_world demo_args init_state
     = (Inl (SystemExit ''No WAV files found.''), init_state)
   \<and> spawned (snd (main demo_world demo_args init_state)) \<noteq> spawned init_state
   \<and> path_exists demo_world (root_of demo_world demo_args)
   \<and> path_exists demo_world (cover_of demo_world demo_args)
   \<and> source_files demo_world demo_args \<noteq> []"
proof -
  note t = no_process_before_validation
  have r1: "root_of no_dir_world demo_args = ''/music''" by code_simp
  have h1: "\<not> path_exists no_dir_world (root_of no_dir_world demo_args)"
    by (simp add: no_dir_world_def)
  have c2: "cover_of no_cover_world demo_args = ''/music/cover.png''" by code_simp
  have h2: "path_exists no_cover_world (root_of no_cover_world demo_args)
            \<and> \<not> path_exists no_cover_world (cover_of no_cover_world demo_args)"
    by code_simp
  have h3: "path_exists empty_world (root_of empty_world demo_args)
            \<and> path_exists empty_world (cover_of empty_world demo_args)
            \<and> source_files empty_world demo_args = []"
    by code_simp
  have h4: "spawned (snd (main demo_world demo_args init_state)) \<noteq> spawned init_state"
    by code_simp
  note a = t[of no_dir_world demo_args init_state, THEN conjunct1, THEN mp, OF h1]
  note b = t[of no_cover_world demo_args init_state, THEN conjunct2, THEN conjunct2, THEN conjunct1,
             THEN mp, OF h2]
  note c = t[of empty_world demo_args init_state, THEN conjunct2, THEN conjunct2, THEN conjunct2,
             THEN conjunct2, THEN conjunct1, THEN mp, OF h3]
  note d = t[of demo_world demo_args init_state, THEN conjunct2, THEN conjunct2, THEN conjunct2,
             THEN conjunct2, THEN conjunct2, THEN mp, OF h4]
  show ?thesis using a b c d h4 by (simp add: r1 c2)
qed

subsection \<open>C7: the scratch directory is removed on every way out\<close>

lemma beneath_join: "\<not> is_absolute n \<Longrightarrow> beneath d (path_join d n)"
  by (simp add: beneath_def path_join_def)

lemma beneath_flac_path: "beneath d (flac_path d idx)"
  unfolding flac_path_def by (intro beneath_join fmt_02d_relative)

lemma pipeline_end_state:
  assumes "pipeline w a wavs workdir s = (r, s')"
  shows "dirs s' = dirs s
       \<and> files s' (path_join workdir ''flac_list.txt'') \<noteq> None
       \<and> (\<forall>p. p \<noteq> path_join workdir ''flac_list.txt'' \<longrightarrow> files s' p = files s p)"
proof -
  obtain r1 s1 where t: "transcode_wavs_to_flacs w wavs workdir s = (r1, s1)" by fastforce
  note fr = twf_frame[OF t]
  have m: "files s1 (path_join workdir ''flac_list.txt'') \<noteq> None"
    using twf_manifest_exists[of w wavs workdir s] t by simp
  from assms show ?thesis
    by (cases rule: pipeline_cases) (use t fr m in auto)
qed

text \<open>
  Claim C7. In a run that passes validation the scratch directory is created and the body of
  the \<^verbatim>\<open>with\<close> block runs in it; when the body ends, by returning or by raising, the
  directory exists and holds the manifest. Whichever way the body ended, in the state
  \<open>main\<close> leaves the scratch directory is no longer among the directories, no file beneath
  it exists (the manifest, the numbered intermediates and the combined audio all lie
  beneath it), and every file outside it is as it was on entry.
\<close>

theorem scratch_directory_removed:
  assumes "path_exists w (root_of w a)" "path_exists w (cover_of w a)" "source_files w a \<noteq> []"
  shows "\<exists>r s3.
           pipeline w a (source_files w a) (mkdtemp w)
             (create_tmpdir (mkdtemp w)
                (print (''Found '' @ str_nat (length (source_files w a))
                         @ '' WAV files. Concatenating audio...'') s)) = (r, s3)
         \<and> mkdtemp w \<in> set (dirs s3)
         \<and> files s3 (path_join (mkdtemp w) ''flac_list.txt'') \<noteq> None
         \<and> fst (main w a s) = (case r of Inl e \<Rightarrow> Inl e | Inr v \<Rightarrow> Inr ())
         \<and> dirs (snd (main w a s)) = removeAll (mkdtemp w) (dirs s)
         \<and> mkdtemp w \<notin> set (dirs (snd (main w a s)))
         \<and> (\<forall>p. files (snd (main w a s)) p = (if beneath (mkdtemp w) p then None else files s p))
         \<and> beneath (mkdtemp w) (path_join (mkdtemp w) ''flac_list.txt'')
         \<and> beneath (mkdtemp w) (path_join (mkdtemp w) ''album_concat.flac'')
         \<and> (\<forall>idx. beneath (mkdtemp w) (path_join (mkdtemp w) (fmt_02d idx @ ''.flac'')))"
proof -
  let ?tmp = "mkdtemp w"
  let ?s2 = "create_tmpdir ?tmp (print (''Found '' @ str_nat (length (source_files w a))
                         @ '' WAV files. Concatenating audio...'') s)"
  obtain r s3 where p: "pipeline w a (source_files w a) ?tmp ?s2 = (r, s3)" by fastforce
  note e = pipeline_end_state[OF p]
  have d3: "dirs s3 = ?tmp # dirs s" using e by (simp add: create_tmpdir_def print_def)
  have f3: "\<forall>p. p \<noteq> path_join ?tmp ''flac_list.txt'' \<longrightarrow> files s3 p = files s p"
    using e by (simp add: create_tmpdir_def print_def)
  have ul: "beneath ?tmp (path_join ?tmp ''flac_list.txt'')"
    by (intro beneath_join) (simp add: is_absolute_def)
  have uc: "beneath ?tmp (path_join ?tmp ''album_concat.flac'')"
    by (intro beneath_join) (simp add: is_absolute_def)
  have uf: "\<forall>idx. beneath ?tmp (path_join ?tmp (fmt_02d idx @ ''.flac''))"
    using beneath_flac_path[of ?tmp] by (simp add: flac_path_def)
  have m: "main w a s = (case r of Inl e \<Rightarrow> (Inl e, cleanup ?tmp s3)
                          | Inr ov \<Rightarrow> (Inr (), print (''Output video: '' @ ov)
                                                  (print ''Done.'' (cleanup ?tmp s3))))"
    unfolding main_validated[OF assms] p by (simp split: sum.splits)
  have fm: "fst (main w a s) = (case r of Inl e \<Rightarrow> Inl e | Inr v \<Rightarrow> Inr ())"
    unfolding m by (simp split: sum.splits)
  have dm: "dirs (snd (main w a s)) = removeAll ?tmp (dirs s)"
    unfolding m using d3 by (simp add: cleanup_def print_def split: sum.splits)
  have fl: "files (snd (main w a s)) p = (if beneath ?tmp p then None else files s p)" for p
  proof -
    have "files (snd (main w a s)) p = (if beneath ?tmp p then None else files s3 p)"
      unfolding m by (simp add: cleanup_def print_def split: sum.splits)
    moreover have "files s3 p = files s p" if "\<not> beneath ?tmp p"
    proof -
      have "p \<noteq> path_join ?tmp ''flac_list.txt''" using that ul by blast
      then show ?thesis using f3 by simp
    qed
    ultimately show ?thesis by simp
  qed
  show ?thesis
    using p d3 e fm dm fl ul uc uf by (intro exI[of _ r] exI[of _ s3]) simp
qed

theorem scratch_directory_removed_witness:
  "path_exists demo_world (root_of demo_world demo_args)
   \<and> path_exists demo_world (cover_of demo_world demo_args)
   \<and> source_files demo_world demo_args \<noteq> []
   \<and> mkdtemp demo_world = ''/tmp/tmpk3''
   \<and> fst (main demo_world demo_args stale_state) = Inr ()
   \<and> dirs (snd (main demo_world demo_args stale_state)) = []
   \<and> files stale_state ''/tmp/tmpk3/flac_list.txt'' = Some ''stale''
   \<and> files (snd (main demo_world demo_args stale_state)) ''/tmp/tmpk3/flac_list.txt'' = None
   \<and> fst (main failing_world demo_args stale_state)
       = Inl (RuntimeError (''Command failed (1): ffmpeg -y -i /music/a.wav -c:a flac -sample_fmt s32 -ar 48000 /tmp/tmpk3/01.flac''
                            @ [CHR 0x0A] @ ''boom''))
   \<and> dirs (snd (main failing_world demo_args stale_state)) = []
   \<and> files (snd (main failing_world demo_args stale_state)) ''/tmp/tmpk3/flac_list.txt'' = None"
proof -
  have v: "path_exists demo_world (root_of demo_world demo_args)"
    "path_exists demo_world (cover_of demo_world demo_args)"
    "source_files demo_world demo_args \<noteq> []"
    by code_simp+
  have v': "path_exists failing_world (root_of failing_world demo_args)"
    "path_exists failing_world (cover_of failing_world demo_args)"
    "source_files failing_world demo_args \<noteq> []"
    by code_simp+
  have tmp: "mkdtemp demo_world = ''/tmp/tmpk3''" "mkdtemp failing_world = ''/tmp/tmpk3''"
    by (simp_all add: demo_world_def failing_world_def)
  have d0: "dirs stale_state = []" by (simp add: stale_state_def init_state_def)
  have f0: "files stale_state ''/tmp/tmpk3/flac_list.txt'' = Some ''stale''"
    by (simp add: stale_state_def init_state_def)
  have lp: "path_join ''/tmp/tmpk3'' ''flac_list.txt'' = ''/tmp/tmpk3/flac_list.txt''" by code_simp
  have r1: "fst (main demo_world demo_args stale_state) = Inr ()" by code_simp
  have r2: "fst (main failing_world demo_args stale_state)
       = Inl (RuntimeError (''Command failed (1): ffmpeg -y -i /music/a.wav -c:a flac -sample_fmt s32 -ar 48000 /tmp/tmpk3/01.flac''
                            @ [CHR 0x0A] @ ''boom''))"
    by code_simp
  from scratch_directory_removed[OF v, of stale_state]
  have a: "dirs (snd (main demo_world demo_args stale_state)) = []"
    "files (snd (main demo_world demo_args stale_state)) ''/tmp/tmpk3/flac_list.txt'' = None"
    by (auto simp: tmp d0 lp)
  from scratch_directory_removed[OF v', of stale_state]
  have b: "dirs (snd (main failing_world demo_args stale_state)) = []"
    "files (snd (main failing_world demo_args stale_state)) ''/tmp/tmpk3/flac_list.txt'' = None"
    by (auto simp: tmp d0 lp)
  show ?thesis using v tmp(1) r1 r2 a b f0 by (intro conjI)
qed

subsection \<open>C8: every invocation overwrites, and the output path is fixed\<close>

lemma transcode_cmds_overwrite:
  "\<forall>cmd\<in>set (map (\<lambda>k. transcode_cmd (wavs ! k) (flac_path workdir (Suc k))) [0..<m]).
     take 2 cmd = [''ffmpeg'', ''-y'']"
  by (simp add: transcode_cmd_def)

lemma last_render_cmd: "last (render_cmd cover audio output) = output"
  by (simp add: render_cmd_def)

lemma pipeline_spawned:
  assumes "pipeline w a wavs workdir s = (r, s')"
  shows "\<exists>new. spawned s' = spawned s @ new
           \<and> (\<forall>cmd\<in>set new. take 2 cmd = [''ffmpeg'', ''-y''])
           \<and> ((\<exists>v. r = Inr v) \<longrightarrow>
                new = map (\<lambda>k. transcode_cmd (wavs ! k) (flac_path workdir (Suc k))) [0..<length wavs]
                      @ [concat_cmd (path_join workdir ''flac_list.txt'')
                           (path_join workdir ''album_concat.flac''),
                         render_cmd (cover_of w a) (path_join workdir ''album_concat.flac'')
                           (output_video_of w a)])"
proof -
  let ?c2 = "concat_cmd (path_join workdir ''flac_list.txt'') (path_join workdir ''album_concat.flac'')"
  let ?c3 = "render_cmd (cover_of w a) (path_join workdir ''album_concat.flac'') (output_video_of w a)"
  let ?T = "\<lambda>m. map (\<lambda>k. transcode_cmd (wavs ! k) (flac_path workdir (Suc k))) [0..<m]"
  have t2: "take 2 ?c2 = [''ffmpeg'', ''-y'']" by (simp add: concat_cmd_def)
  have t3: "take 2 ?c3 = [''ffmpeg'', ''-y'']" by (simp add: render_cmd_def)
  note tc = transcode_cmds_overwrite[of wavs workdir]
  from assms show ?thesis
  proof (cases rule: pipeline_cases)
    case (normalizer_failed e)
    from twf_frame[OF normalizer_failed(1)] obtain m where "spawned s' = spawned s @ ?T m" by blast
    then show ?thesis using tc[of m] normalizer_failed(2) by (intro exI[of _ "?T m"]) simp
  next
    case (concat_failed flacs s1 e)
    from twf_frame[OF concat_failed(1)] obtain m where "spawned s1 = spawned s @ ?T m" by blast
    then show ?thesis using tc[of m] t2 concat_failed(2,3)
      by (intro exI[of _ "?T m @ [?c2]"]) auto
  next
    case (render_failed flacs s1 e)
    from twf_frame[OF render_failed(1)] obtain m where "spawned s1 = spawned s @ ?T m" by blast
    then show ?thesis using tc[of m] t2 t3 render_failed(2,3)
      by (intro exI[of _ "?T m @ [?c2, ?c3]"]) auto
  next
    case (rendered flacs s1)
    from twf_frame[OF rendered(1)] have "spawned s1 = spawned s @ ?T (length wavs)" by auto
    then show ?thesis using tc[of "length wavs"] t2 t3 rendered(2,3)
      by (intro exI[of _ "?T (length wavs) @ [?c2, ?c3]"]) auto
  qed
qed

text \<open>
  Claim C8. Every process a run launches is \<^verbatim>\<open>ffmpeg\<close> with the overwrite flag \<^verbatim>\<open>-y\<close> as its
  first option: the transcodes of the Normalizer, the Concatenator and the Renderer. A run
  that succeeds has launched one transcode per source file, then the Concatenator, then
  the Renderer, whose last argument, the file it writes, is the output argument joined to
  the resolved input directory and resolved. That path depends on the arguments and on
  path resolution only, so a second run with the same arguments writes the same path,
  again with \<^verbatim>\<open>-y\<close>.
\<close>

theorem every_invocation_overwrites:
  "\<exists>new. spawned (snd (main w a s)) = spawned s @ new
      \<and> (\<forall>cmd\<in>set new. take 2 cmd = [''ffmpeg'', ''-y''])
      \<and> (fst (main w a s) = Inr () \<longrightarrow>
           new = map (\<lambda>k. transcode_cmd (source_files w a ! k)
                            (path_join (mkdtemp w) (fmt_02d (Suc k) @ ''.flac'')))
                   [0..<length (source_files w a)]
                 @ [concat_cmd (path_join (mkdtemp w) ''flac_list.txt'')
                      (path_join (mkdtemp w) ''album_concat.flac''),
                    render_cmd (cover_of w a) (path_join (mkdtemp w) ''album_concat.flac'')
                      (output_video_of w a)]
           \<and> last (last new)
               = resolve w (path_join (resolve w (expanduser w (arg_input a))) (arg_output a)))
      \<and> (resolve w' = resolve w \<and> expanduser w' = expanduser w \<longrightarrow>
           output_video_of w' a = output_video_of w a)"
proof (cases "path_exists w (root_of w a) \<and> path_exists w (cover_of w a) \<and> source_files w a \<noteq> []")
  case False
  then consider "\<not> path_exists w (root_of w a)"
    | "path_exists w (root_of w a)" "\<not> path_exists w (cover_of w a)"
    | "path_exists w (root_of w a)" "path_exists w (cover_of w a)" "source_files w a = []"
    by blast
  then have "snd (main w a s) = s \<and> fst (main w a s) \<noteq> Inr ()"
    by cases (simp_all add: main_no_root main_no_cover main_no_inputs)
  then show ?thesis by (intro exI[of _ "[]"]) (simp add: output_video_of_def root_of_def)
next
  case True
  let ?s2 = "create_tmpdir (mkdtemp w)
                (print (''Found '' @ str_nat (length (source_files w a))
                         @ '' WAV files. Concatenating audio...'') s)"
  obtain r s3 where p: "pipeline w a (source_files w a) (mkdtemp w) ?s2 = (r, s3)" by fastforce
  have m: "main w a s = (case r of Inl e \<Rightarrow> (Inl e, cleanup (mkdtemp w) s3)
                          | Inr ov \<Rightarrow> (Inr (), print (''Output video: '' @ ov)
                                                  (print ''Done.'' (cleanup (mkdtemp w) s3))))"
    using True unfolding main_validated[of w a s, OF True[THEN conjunct1]
        True[THEN conjunct2, THEN conjunct1] True[THEN conjunct2, THEN conjunct2]] p
    by (simp split: sum.splits)
  have sp: "spawned (snd (main w a s)) = spawned s3"
    unfolding m by (simp add: cleanup_def print_def split: sum.splits)
  have ok: "fst (main w a s) = Inr () \<longleftrightarrow> (\<exists>v. r = Inr v)"
    unfolding m by (simp split: sum.splits)
  have s2: "spawned ?s2 = spawned s" by (simp add: create_tmpdir_def print_def)
  from pipeline_spawned[OF p] obtain new where
    n: "spawned s3 = spawned s @ new" "\<forall>cmd\<in>set new. take 2 cmd = [''ffmpeg'', ''-y'']"
       "(\<exists>v. r = Inr v) \<longrightarrow>
                new = map (\<lambda>k. transcode_cmd (source_files w a ! k) (flac_path (mkdtemp w) (Suc k)))
                        [0..<length (source_files w a)]
                      @ [concat_cmd (path_join (mkdtemp w) ''flac_list.txt'')
                           (path_join (mkdtemp w) ''album_concat.flac''),
                         render_cmd (cover_of w a) (path_join (mkdtemp w) ''album_concat.flac'')
                           (output_video_of w a)]"
    unfolding s2 by blast
  show ?thesis
    using n sp ok
    by (intro exI[of _ new])
       (auto simp: flac_path_def last_render_cmd output_video_of_def root_of_def)
qed

theorem every_invocation_overwrites_witness:
  "fst (main demo_world demo_args init_state) = Inr ()
   \<and> spawned (snd (main demo_world demo_args init_state))
     = [[''ffmpeg'', ''-y'', ''-i'', ''/music/a.wav'', ''-c:a'', ''flac'', ''-sample_fmt'', ''s32'',
         ''-ar'', ''48000'', ''/tmp/tmpk3/01.flac''],
        [''ffmpeg'', ''-y'', ''-i'', ''/music/b.wav'', ''-c:a'', ''flac'', ''-sample_fmt'', ''s32'',
         ''-ar'', ''48000'', ''/tmp/tmpk3/02.flac''],
        [''ffmpeg'', ''-y'', ''-f'', ''concat'', ''-safe'', ''0'', ''-i'', ''/tmp/tmpk3/flac_list.txt'',
         ''-c:a'', ''flac'', ''-sample_fmt'', ''s32'', ''-ar'', ''48000'',
         ''/tmp/tmpk3/album_concat.flac''],
        [''ffmpeg'', ''-y'', ''-loop'', ''1'', ''-framerate'', ''30'', ''-i'', ''/music/cover.png'',
         ''-i'', ''/tmp/tmpk3/album_concat.flac'',
         ''-c:v'', ''h264_nvenc'', ''-preset'', ''p7'', ''-rc'', ''vbr_hq'', ''-cq'', ''17'',
         ''-b:v'', ''8M'', ''-maxrate'', ''12M'', ''-bufsize'', ''24M'',
         ''-profile:v'', ''high'', ''-pix_fmt'', ''yuv420p'', ''-r'', ''30'',
         ''-c:a'', ''aac'', ''-b:a'', ''320k'',
         ''-shortest'', ''-movflags'', ''+faststart'', ''/music/FULL-GPU.mp4'']]"
proof -
  have ok: "fst (main demo_world demo_args init_state) = Inr ()" by code_simp
  have ev: "map (\<lambda>k. transcode_cmd (source_files demo_world demo_args ! k)
                            (path_join (mkdtemp demo_world) (fmt_02d (Suc k) @ ''.flac'')))
                   [0..<length (source_files demo_world demo_args)]
                 @ [concat_cmd (path_join (mkdtemp demo_world) ''flac_list.txt'')
                      (path_join (mkdtemp demo_world) ''album_concat.flac''),
                    render_cmd (cover_of demo_world demo_args)
                      (path_join (mkdtemp demo_world) ''album_concat.flac'')
                      (output_video_of demo_world demo_args)]
     = [[''ffmpeg'', ''-y'', ''-i'', ''/music/a.wav'', ''-c:a'', ''flac'', ''-sample_fmt'', ''s32'',
         ''-ar'', ''48000'', ''/tmp/tmpk3/01.flac''],
        [''ffmpeg'', ''-y'', ''-i'', ''/music/b.wav'', ''-c:a'', ''flac'', ''-sample_fmt'', ''s32'',
         ''-ar'', ''48000'', ''/tmp/tmpk3/02.flac''],
        [''ffmpeg'', ''-y'', ''-f'', ''concat'', ''-safe'', ''0'', ''-i'', ''/tmp/tmpk3/flac_list.txt'',
         ''-c:a'', ''flac'', ''-sample_fmt'', ''s32'', ''-ar'', ''48000'',
         ''/tmp/tmpk3/album_concat.flac''],
        [''ffmpeg'', ''-y'', ''-loop'', ''1'', ''-framerate'', ''30'', ''-i'', ''/music/cover.png'',
         ''-i'', ''/tmp/tmpk3/album_concat.flac'',
         ''-c:v'', ''h264_nvenc'', ''-preset'', ''p7'', ''-rc'', ''vbr_hq'', ''-cq'', ''17'',
         ''-b:v'', ''8M'', ''-maxrate'', ''12M'', ''-bufsize'', ''24M'',
         ''-profile:v'', ''high'', ''-pix_fmt'', ''yuv420p'', ''-r'', ''30'',
         ''-c:a'', ''aac'', ''-b:a'', ''320k'',
         ''-shortest'', ''-movflags'', ''+faststart'', ''/music/FULL-GPU.mp4'']]"
    by code_simp
  have s0: "spawned init_state = []" by (simp add: init_state_def)
  from every_invocation_overwrites[of demo_world demo_args init_state demo_world] ok
  obtain new where
    "spawned (snd (main demo_world demo_args init_state)) = spawned init_state @ new"
    "new = map (\<lambda>k. transcode_cmd (source_files demo_world demo_args ! k)
                            (path_join (mkdtemp demo_world) (fmt_02d (Suc k) @ ''.flac'')))
                   [0..<length (source_files demo_world demo_args)]
                 @ [concat_cmd (path_join (mkdtemp demo_world) ''flac_list.txt'')
                      (path_join (mkdtemp demo_world) ''album_concat.flac''),
                    render_cmd (cover_of demo_world demo_args)
                      (path_join (mkdtemp demo_world) ''album_concat.flac'')
                      (output_video_of demo_world demo_args)]"
    by (elim exE conjE) simp
  then show ?thesis using ok unfolding ev s0 by simp
qed

subsection \<open>The commands of a run, and the run as far as it gets\<close>

lemma pipeline_cmds_length: "length (pipeline_cmds w a wavs workdir) = length wavs + 2"
  by (simp add: pipeline_cmds_def)

lemma pipeline_cmds_nth_transcode:
  "k < length wavs \<Longrightarrow>
   pipeline_cmds w a wavs workdir ! k = transcode_cmd (wavs ! k) (flac_path workdir (Suc k))"
  by (simp add: pipeline_cmds_def nth_append)

lemma pipeline_cmds_nth_concat:
  "pipeline_cmds w a wavs workdir ! length wavs
     = concat_cmd (path_join workdir ''flac_list.txt'') (path_join workdir ''album_concat.flac'')"
  by (simp add: pipeline_cmds_def nth_append)

lemma pipeline_cmds_nth_render:
  "pipeline_cmds w a wavs workdir ! Suc (length wavs)
     = render_cmd (cover_of w a) (path_join workdir ''album_concat.flac'') (output_video_of w a)"
  by (simp add: pipeline_cmds_def nth_append)

lemma pipeline_cmds_take_transcodes:
  "k \<le> length wavs \<Longrightarrow>
   take k (pipeline_cmds w a wavs workdir)
     = map (\<lambda>j. transcode_cmd (wavs ! j) (flac_path workdir (Suc j))) [0..<k]"
  by (simp add: pipeline_cmds_def take_map)

lemma pipeline_exec:
  fixes w a wavs workdir s
  defines "cmds \<equiv> pipeline_cmds w a wavs workdir"
  defines "res \<equiv> \<lambda>j. proc w (length (spawned s) + j) (cmds ! j)"
  assumes k: "k \<le> length cmds"
    and ok: "\<forall>j<k. succeeded (res j)"
    and bad: "k < length cmds \<longrightarrow> \<not> succeeded (res k)"
  shows "fst (pipeline w a wavs workdir s)
           = (if k < length cmds then Inl (run_error (res k) (cmds ! k))
              else Inr (output_video_of w a))
       \<and> spawned (snd (pipeline w a wavs workdir s)) = spawned s @ take (Suc k) cmds
       \<and> stderr (snd (pipeline w a wavs workdir s)) = stderr s
       \<and> stdout (snd (pipeline w a wavs workdir s))
           = stdout s @ (if Suc (length wavs) \<le> k
                         then ''Rendering final video -> '' @ path_name (output_video_of w a)
                              @ [CHR 0x0A]
                         else [])"
proof -
  let ?N = "length wavs"
  let ?lp = "path_join workdir ''flac_list.txt''"
  let ?cf = "path_join workdir ''album_concat.flac''"
  let ?c2 = "concat_cmd ?lp ?cf"
  let ?c3 = "render_cmd (cover_of w a) ?cf (output_video_of w a)"
  let ?T = "\<lambda>m. map (\<lambda>j. transcode_cmd (wavs ! j) (flac_path workdir (Suc j))) [0..<m]"
  have len: "length cmds = ?N + 2" by (simp add: cmds_def pipeline_cmds_length)
  have cm: "cmds = ?T ?N @ [?c2, ?c3]" by (simp add: cmds_def pipeline_cmds_def)
  show ?thesis
  proof (cases "k < ?N")
    case True
    have okT: "\<forall>j<k. succeeded (proc w (length (spawned s) + j)
                 (transcode_cmd (wavs ! j) (flac_path workdir (Suc j))))"
      using ok True by (simp add: res_def cmds_def pipeline_cmds_nth_transcode)
    have badT: "\<not> succeeded (proc w (length (spawned s) + k)
                 (transcode_cmd (wavs ! k) (flac_path workdir (Suc k))))"
      using bad True len by (simp add: res_def cmds_def pipeline_cmds_nth_transcode)
    have tk: "take (Suc k) cmds = ?T (Suc k)"
      using True unfolding cmds_def by (intro pipeline_cmds_take_transcodes) simp
    show ?thesis
      unfolding pipeline_def twf_fail_at[OF True okT badT] tk
      using True len
      by (simp add: res_def cmds_def pipeline_cmds_nth_transcode del: upt_Suc)
  next
    case False
    have okT: "\<forall>j<?N. succeeded (proc w (length (spawned s) + j)
                 (transcode_cmd (wavs ! j) (flac_path workdir (Suc j))))"
    proof (intro allI impI)
      fix j assume j: "j < ?N"
      then have "j < k" using False by simp
      then have "succeeded (res j)" using ok by simp
      then show "succeeded (proc w (length (spawned s) + j)
                 (transcode_cmd (wavs ! j) (flac_path workdir (Suc j))))"
        using j by (simp add: res_def cmds_def pipeline_cmds_nth_transcode)
    qed
    let ?s1 = "s\<lparr>spawned := spawned s @ ?T ?N,
                 files := (files s)(?lp \<mapsto> concat (map (\<lambda>k. manifest_line (flac_path workdir (Suc k))) [0..<?N]))\<rparr>"
    note tw = twf_all_ok[OF okT]
    have r2: "res ?N = proc w (length (spawned ?s1)) ?c2"
      by (simp add: res_def cmds_def pipeline_cmds_nth_concat)
    let ?s2 = "?s1\<lparr>spawned := spawned ?s1 @ [?c2]\<rparr>"
    let ?s3 = "print (''Rendering final video -> '' @ path_name (output_video_of w a)) ?s2"
    have r3: "res (Suc ?N) = proc w (length (spawned ?s3)) ?c3"
      by (simp add: res_def cmds_def pipeline_cmds_nth_render print_def)
    consider (c) "k = ?N" | (r) "k = Suc ?N" | (d) "k = ?N + 2"
      using False k len by linarith
    then show ?thesis
    proof cases
      case c
      then have b2: "\<not> succeeded (proc w (length (spawned ?s1)) ?c2)"
        using bad len r2 by simp
      have tk: "take (Suc k) cmds = ?T ?N @ [?c2]" using c by (simp add: cm)
      have ck: "cmds ! k = ?c2" using c by (simp add: cmds_def pipeline_cmds_nth_concat)
      show ?thesis
        unfolding pipeline_def tw tk ck using c len b2 r2
        by (simp add: concat_flacs_def run_eq Let_def)
    next
      case r
      then have o2: "succeeded (proc w (length (spawned ?s1)) ?c2)"
        using ok r2 by (metis lessI)
      have b3: "\<not> succeeded (proc w (length (spawned ?s3)) ?c3)"
        using bad len r r3 by simp
      have tk: "take (Suc k) cmds = ?T ?N @ [?c2, ?c3]" using r by (simp add: cm)
      have ck: "cmds ! k = ?c3" using r by (simp add: cmds_def pipeline_cmds_nth_render)
      show ?thesis
        unfolding pipeline_def tw tk ck using r len o2 b3 r3
        by (simp add: concat_flacs_def render_video_def run_eq Let_def print_def)
    next
      case d
      then have o2: "succeeded (proc w (length (spawned ?s1)) ?c2)"
        using ok r2 by (metis add_2_eq_Suc' lessI less_SucI)
      have o3: "succeeded (proc w (length (spawned ?s3)) ?c3)"
        using ok d r3 by (metis add_2_eq_Suc' lessI)
      have tk: "take (Suc k) cmds = ?T ?N @ [?c2, ?c3]" using d by (simp add: cm)
      show ?thesis
        unfolding pipeline_def tw tk using d len o2 o3
        by (simp add: concat_flacs_def render_video_def run_eq Let_def print_def)
    qed
  qed
qed

lemma script_valid:
  assumes v: "path_exists w (root_of w a)" "path_exists w (cover_of w a)" "source_files w a \<noteq> []"
    and k: "k \<le> length (planned_cmds w a)"
    and ok: "\<forall>j<k. succeeded (planned_result w a s j)"
    and bad: "k < length (planned_cmds w a) \<longrightarrow> \<not> succeeded (planned_result w a s k)"
  shows "fst (script w (Namespace a) s) = (if k < length (planned_cmds w a) then 1 else 0)
       \<and> spawned (snd (script w (Namespace a) s)) = spawned s @ take (Suc k) (planned_cmds w a)
       \<and> stderr (snd (script w (Namespace a) s))
           = stderr s @ (if k < length (planned_cmds w a)
                         then ''Error: '' @ str_exn (run_error (planned_result w a s k)
                                                       (planned_cmds w a ! k)) @ [CHR 0x0A]
                         else [])
       \<and> stdout (snd (script w (Namespace a) s))
           = stdout s @ ''Found '' @ str_nat (length (source_files w a))
               @ '' WAV files. Concatenating audio...'' @ [CHR 0x0A]
               @ (if Suc (length (source_files w a)) \<le> k
                  then ''Rendering final video -> '' @ path_name (output_video_of w a) @ [CHR 0x0A]
                  else [])
               @ (if k < length (planned_cmds w a) then []
                  else ''Done.'' @ [CHR 0x0A]
                       @ ''Output video: '' @ output_video_of w a @ [CHR 0x0A])"
proof -
  let ?found = "''Found '' @ str_nat (length (source_files w a)) @ '' WAV files. Concatenating audio...''"
  let ?s2 = "create_tmpdir (mkdtemp w) (print ?found s)"
  let ?P = "pipeline w a (source_files w a) (mkdtemp w) ?s2"
  have sp2: "spawned ?s2 = spawned s" by (simp add: create_tmpdir_def print_def)
  have k': "k \<le> length (pipeline_cmds w a (source_files w a) (mkdtemp w))"
    using k by (simp add: planned_cmds_def)
  have ok': "\<forall>j<k. succeeded (proc w (length (spawned ?s2) + j)
                 (pipeline_cmds w a (source_files w a) (mkdtemp w) ! j))"
    using ok unfolding sp2 by (simp add: planned_result_def planned_cmds_def)
  have bad': "k < length (pipeline_cmds w a (source_files w a) (mkdtemp w)) \<longrightarrow>
       \<not> succeeded (proc w (length (spawned ?s2) + k)
                 (pipeline_cmds w a (source_files w a) (mkdtemp w) ! k))"
    using bad unfolding sp2 by (simp add: planned_result_def planned_cmds_def)
  note e = pipeline_exec[OF k' ok' bad', unfolded sp2,
             folded planned_cmds_def, folded planned_result_def]
  obtain r s3 where p: "?P = (r, s3)" by fastforce
  have m: "main w a s = (case r of Inl e \<Rightarrow> (Inl e, cleanup (mkdtemp w) s3)
                          | Inr ov \<Rightarrow> (Inr (), print (''Output video: '' @ ov)
                                                  (print ''Done.'' (cleanup (mkdtemp w) s3))))"
    unfolding main_validated[OF v] p by (simp split: sum.splits)
  have r: "r = (if k < length (planned_cmds w a)
                then Inl (run_error (planned_result w a s k) (planned_cmds w a ! k))
                else Inr (output_video_of w a))"
    and s3: "spawned s3 = spawned s @ take (Suc k) (planned_cmds w a)"
       "stderr s3 = stderr ?s2"
       "stdout s3 = stdout ?s2 @ (if Suc (length (source_files w a)) \<le> k
                         then ''Rendering final video -> '' @ path_name (output_video_of w a)
                              @ [CHR 0x0A]
                         else [])"
    using e p by simp_all
  have o2: "stdout ?s2 = stdout s @ ?found @ [CHR 0x0A]" "stderr ?s2 = stderr s"
    by (simp_all add: create_tmpdir_def print_def)
  have ne: "\<And>x c m. run_error x c \<noteq> SystemExit m"
    by (simp add: run_error_def split: captured.splits)
  show ?thesis
  proof (cases "k < length (planned_cmds w a)")
    case True
    then have rr: "r = Inl (run_error (planned_result w a s k) (planned_cmds w a ! k))"
      using r by simp
    show ?thesis
      unfolding script_def cmdline.case m rr using True s3 o2
      by (cases "run_error (planned_result w a s k) (planned_cmds w a ! k)")
         (simp_all add: ne print_err_def cleanup_def)
  next
    case False
    then have rr: "r = Inr (output_video_of w a)" using r by simp
    show ?thesis
      unfolding script_def cmdline.case m rr using False s3 o2
      by (simp add: print_def cleanup_def)
  qed
qed

subsection \<open>C1: the exit status and what the run writes\<close>

text \<open>
  Claim C1 says that every failure writes a single line prefixed \<^verbatim>\<open>Error:\<close> and ends with
  status 1, and that no status other than 0 and 1 occurs. It fails in four ways. A run
  that finds no source file raises \<open>SystemExit\<close> with a message, which the guard does not
  catch: the line written is the bare message, without the prefix. A command that fails
  is reported with its captured output after a line break, so the report has as many
  lines more as the output has. A command line that \<^verbatim>\<open>parse_args\<close> rejects ends the run with
  status 2, and what is written is the usage text. A request for help ends the run with
  status 0 and no summary line.
\<close>

theorem error_line_counterexample:
  "script empty_world (Namespace demo_args) init_state
     = (1, init_state\<lparr>stderr := ''No WAV files found.'' @ [CHR 0x0A]\<rparr>)
   \<and> \<not> prefix ''Error:'' (stderr (snd (script empty_world (Namespace demo_args) init_state)))
   \<and> fst (script failing_world (Namespace demo_args) init_state) = 1
   \<and> stderr (snd (script failing_world (Namespace demo_args) init_state))
       = ''Error: Command failed (1): ffmpeg -y -i /music/b.wav -c:a flac -sample_fmt s32 -ar 48000 /tmp/tmpk3/02.flac''
         @ [CHR 0x0A] @ ''boom'' @ [CHR 0x0A]
   \<and> count_list (stderr (snd (script failing_world (Namespace demo_args) init_state))) (CHR 0x0A) = 2
   \<and> fst (script demo_world no_input_cmdline init_state) = 2
   \<and> \<not> prefix ''Error:'' (stderr (snd (script demo_world no_input_cmdline init_state)))
   \<and> script demo_world help_cmdline init_state
       = (0, init_state\<lparr>stdout := ''usage: render_album.py [-h] --input INPUT'' @ [CHR 0x0A]\<rparr>)"
proof -
  have a: "script empty_world (Namespace demo_args) init_state
     = (1, init_state\<lparr>stderr := ''No WAV files found.'' @ [CHR 0x0A]\<rparr>)"
    by (simp add: script_def main_def ensure_exists_def source_files_def sorted_paths_def
          root_of_def cover_of_def empty_world_def demo_world_def demo_args_def
          path_join_def is_absolute_def dir_prefix_def print_err_def init_state_def)
  have b: "\<not> prefix ''Error:'' (stderr (snd (script empty_world (Namespace demo_args) init_state)))"
    unfolding a by (simp add: init_state_def)
  have c: "fst (script failing_world (Namespace demo_args) init_state) = 1"
    "stderr (snd (script failing_world (Namespace demo_args) init_state))
       = ''Error: Command failed (1): ffmpeg -y -i /music/b.wav -c:a flac -sample_fmt s32 -ar 48000 /tmp/tmpk3/02.flac''
         @ [CHR 0x0A] @ ''boom'' @ [CHR 0x0A]"
    "count_list (stderr (snd (script failing_world (Namespace demo_args) init_state))) (CHR 0x0A) = 2"
    by code_simp+
  have d: "fst (script demo_world no_input_cmdline init_state) = 2"
    "\<not> prefix ''Error:'' (stderr (snd (script demo_world no_input_cmdline init_state)))"
    by code_simp+
  have e: "script demo_world help_cmdline init_state
       = (0, init_state\<lparr>stdout := ''usage: render_album.py [-h] --input INPUT'' @ [CHR 0x0A]\<rparr>)"
    by (simp add: script_def help_cmdline_def init_state_def)
  show ?thesis using a b c d e by (intro conjI)
qed

text \<open>
  Claim C1, amended. What a run writes and the status it ends with are fixed by the command
  line and by the outcomes of the commands it launches, taken in order:
  \<^item> a command line that \<^verbatim>\<open>parse_args\<close> rejects: status 2, the usage text on the error
    stream; a request for help: status 0, the help text on the standard output;
  \<^item> no input directory, or no cover image: status 1, and the one line
    \<^verbatim>\<open>Error: Missing input directory: <path>\<close> or \<^verbatim>\<open>Error: Missing cover image: <path>\<close> on
    the error stream;
  \<^item> no source file: status 1, and the one line \<^verbatim>\<open>No WAV files found.\<close>, without prefix, on
    the error stream;
  \<^item> every command of the run exits with 0 and output that decodes: status 0, exactly
    those commands launched, nothing on the error stream, and the standard output ends
    with the line \<^verbatim>\<open>Output video: <resolved output path>\<close>;
  \<^item> the first command that does not do so is the \<open>k\<close>-th: status 1, the commands up to it
    launched and no other, and the error stream receives
    \<^verbatim>\<open>Error: Command failed (<exit code>): <argument vector>\<close>, a line break and the
    captured output when the output decodes and the exit code is not zero, and the line
    \<^verbatim>\<open>Error: <decoder message>\<close> when the output does not decode;
  \<^item> in every case the status is 0, 1 or 2.
\<close>

theorem exit_status_and_error_report:
  "script w (Usage_error text) s = (2, s\<lparr>stderr := stderr s @ text\<rparr>)
   \<and> script w (Help_shown text) s = (0, s\<lparr>stdout := stdout s @ text\<rparr>)
   \<and> (\<not> path_exists w (root_of w a) \<longrightarrow>
        script w (Namespace a) s
          = (1, s\<lparr>stderr := stderr s @ ''Error: Missing input directory: '' @ root_of w a
                                @ [CHR 0x0A]\<rparr>))
   \<and> (path_exists w (root_of w a) \<and> \<not> path_exists w (cover_of w a) \<longrightarrow>
        script w (Namespace a) s
          = (1, s\<lparr>stderr := stderr s @ ''Error: Missing cover image: '' @ cover_of w a
                                @ [CHR 0x0A]\<rparr>))
   \<and> (path_exists w (root_of w a) \<and> path_exists w (cover_of w a) \<and> source_files w a = [] \<longrightarrow>
        script w (Namespace a) s
          = (1, s\<lparr>stderr := stderr s @ ''No WAV files found.'' @ [CHR 0x0A]\<rparr>))
   \<and> (path_exists w (root_of w a) \<and> path_exists w (cover_of w a) \<and> source_files w a \<noteq> []
        \<and> (\<forall>k<length (planned_cmds w a). succeeded (planned_result w a s k)) \<longrightarrow>
        fst (script w (Namespace a) s) = 0
        \<and> spawned (snd (script w (Namespace a) s)) = spawned s @ planned_cmds w a
        \<and> stderr (snd (script w (Namespace a) s)) = stderr s
        \<and> stdout (snd (script w (Namespace a) s))
            = stdout s @ ''Found '' @ str_nat (length (source_files w a))
                @ '' WAV files. Concatenating audio...'' @ [CHR 0x0A]
                @ ''Rendering final video -> '' @ path_name (output_video_of w a) @ [CHR 0x0A]
                @ ''Done.'' @ [CHR 0x0A]
                @ ''Output video: '' @ output_video_of w a @ [CHR 0x0A])
   \<and> (\<forall>k rc out.
        path_exists w (root_of w a) \<and> path_exists w (cover_of w a) \<and> source_files w a \<noteq> []
        \<and> k < length (planned_cmds w a)
        \<and> (\<forall>j<k. succeeded (planned_result w a s j))
        \<and> planned_result w a s k = (rc, Text out) \<and> rc \<noteq> 0 \<longrightarrow>
        fst (script w (Namespace a) s) = 1
        \<and> spawned (snd (script w (Namespace a) s)) = spawned s @ take (Suc k) (planned_cmds w a)
        \<and> stderr (snd (script w (Namespace a) s))
            = stderr s @ ''Error: Command failed ('' @ str_int rc @ ''): ''
                @ join_space (planned_cmds w a ! k) @ [CHR 0x0A] @ out @ [CHR 0x0A])
   \<and> (\<forall>k rc msg.
        path_exists w (root_of w a) \<and> path_exists w (cover_of w a) \<and> source_files w a \<noteq> []
        \<and> k < length (planned_cmds w a)
        \<and> (\<forall>j<k. succeeded (planned_result w a s j))
        \<and> planned_result w a s k = (rc, Undecodable msg) \<longrightarrow>
        fst (script w (Namespace a) s) = 1
        \<and> spawned (snd (script w (Namespace a) s)) = spawned s @ take (Suc k) (planned_cmds w a)
        \<and> stderr (snd (script w (Namespace a) s)) = stderr s @ ''Error: '' @ msg @ [CHR 0x0A])
   \<and> (fst (script w c s) = 0 \<or> fst (script w c s) = 1 \<or> fst (script w c s) = 2)"
proof -
  have c1: "script w (Usage_error text) s = (2, s\<lparr>stderr := stderr s @ text\<rparr>)"
    by (simp add: script_def)
  have c2: "script w (Help_shown text) s = (0, s\<lparr>stdout := stdout s @ text\<rparr>)"
    by (simp add: script_def)
  have c9: "fst (script w c s) = 0 \<or> fst (script w c s) = 1 \<or> fst (script w c s) = 2"
    by (simp add: script_def split: cmdline.splits prod.splits sum.splits exn.splits)
  have c3: "\<not> path_exists w (root_of w a) \<longrightarrow>
        script w (Namespace a) s
          = (1, s\<lparr>stderr := stderr s @ ''Error: Missing input directory: '' @ root_of w a
                                @ [CHR 0x0A]\<rparr>)"
    by (simp add: script_def main_no_root print_err_def)
  have c4: "path_exists w (root_of w a) \<and> \<not> path_exists w (cover_of w a) \<longrightarrow>
        script w (Namespace a) s
          = (1, s\<lparr>stderr := stderr s @ ''Error: Missing cover image: '' @ cover_of w a
                                @ [CHR 0x0A]\<rparr>)"
    by (simp add: script_def main_no_cover print_err_def)
  have c5: "path_exists w (root_of w a) \<and> path_exists w (cover_of w a) \<and> source_files w a = [] \<longrightarrow>
        script w (Namespace a) s
          = (1, s\<lparr>stderr := stderr s @ ''No WAV files found.'' @ [CHR 0x0A]\<rparr>)"
    by (simp add: script_def main_no_inputs print_err_def)
  have c6: "path_exists w (root_of w a) \<and> path_exists w (cover_of w a) \<and> source_files w a \<noteq> []
        \<and> (\<forall>k<length (planned_cmds w a). succeeded (planned_result w a s k)) \<longrightarrow>
        fst (script w (Namespace a) s) = 0
        \<and> spawned (snd (script w (Namespace a) s)) = spawned s @ planned_cmds w a
        \<and> stderr (snd (script w (Namespace a) s)) = stderr s
        \<and> stdout (snd (script w (Namespace a) s))
            = stdout s @ ''Found '' @ str_nat (length (source_files w a))
                @ '' WAV files. Concatenating audio...'' @ [CHR 0x0A]
                @ ''Rendering final video -> '' @ path_name (output_video_of w a) @ [CHR 0x0A]
                @ ''Done.'' @ [CHR 0x0A]
                @ ''Output video: '' @ output_video_of w a @ [CHR 0x0A]"
  proof
    assume h: "path_exists w (root_of w a) \<and> path_exists w (cover_of w a) \<and> source_files w a \<noteq> []
        \<and> (\<forall>k<length (planned_cmds w a). succeeded (planned_result w a s k))"
    have len: "length (planned_cmds w a) = length (source_files w a) + 2"
      by (simp add: planned_cmds_def pipeline_cmds_def)
    from h have v: "path_exists w (root_of w a)" "path_exists w (cover_of w a)" "source_files w a \<noteq> []"
      and ok: "\<forall>j<length (planned_cmds w a). succeeded (planned_result w a s j)"
      by simp_all
    have bad: "length (planned_cmds w a) < length (planned_cmds w a) \<longrightarrow>
               \<not> succeeded (planned_result w a s (length (planned_cmds w a)))" by simp
    note e = script_valid[OF v order_refl ok bad]
    show "fst (script w (Namespace a) s) = 0
        \<and> spawned (snd (script w (Namespace a) s)) = spawned s @ planned_cmds w a
        \<and> stderr (snd (script w (Namespace a) s)) = stderr s
        \<and> stdout (snd (script w (Namespace a) s))
            = stdout s @ ''Found '' @ str_nat (length (source_files w a))
                @ '' WAV files. Concatenating audio...'' @ [CHR 0x0A]
                @ ''Rendering final video -> '' @ path_name (output_video_of w a) @ [CHR 0x0A]
                @ ''Done.'' @ [CHR 0x0A]
                @ ''Output video: '' @ output_video_of w a @ [CHR 0x0A]"
      using e len by simp
  qed
  have c7: "\<forall>k rc out.
        path_exists w (root_of w a) \<and> path_exists w (cover_of w a) \<and> source_files w a \<noteq> []
        \<and> k < length (planned_cmds w a)
        \<and> (\<forall>j<k. succeeded (planned_result w a s j))
        \<and> planned_result w a s k = (rc, Text out) \<and> rc \<noteq> 0 \<longrightarrow>
        fst (script w (Namespace a) s) = 1
        \<and> spawned (snd (script w (Namespace a) s)) = spawned s @ take (Suc k) (planned_cmds w a)
        \<and> stderr (snd (script w (Namespace a) s))
            = stderr s @ ''Error: Command failed ('' @ str_int rc @ ''): ''
                @ join_space (planned_cmds w a ! k) @ [CHR 0x0A] @ out @ [CHR 0x0A]"
  proof (intro allI, rule impI)
    fix k rc out
    assume h: "path_exists w (root_of w a) \<and> path_exists w (cover_of w a) \<and> source_files w a \<noteq> []
        \<and> k < length (planned_cmds w a)
        \<and> (\<forall>j<k. succeeded (planned_result w a s j))
        \<and> planned_result w a s k = (rc, Text out) \<and> rc \<noteq> 0"
    then have v: "path_exists w (root_of w a)" "path_exists w (cover_of w a)" "source_files w a \<noteq> []"
      and k: "k \<le> length (planned_cmds w a)" "k < length (planned_cmds w a)"
      and ok: "\<forall>j<k. succeeded (planned_result w a s j)"
      and res: "planned_result w a s k = (rc, Text out)" "rc \<noteq> 0"
      by simp_all
    have bad: "k < length (planned_cmds w a) \<longrightarrow> \<not> succeeded (planned_result w a s k)"
      using res by (simp add: succeeded_def)
    note e = script_valid[OF v k(1) ok bad]
    show "fst (script w (Namespace a) s) = 1
        \<and> spawned (snd (script w (Namespace a) s)) = spawned s @ take (Suc k) (planned_cmds w a)
        \<and> stderr (snd (script w (Namespace a) s))
            = stderr s @ ''Error: Command failed ('' @ str_int rc @ ''): ''
                @ join_space (planned_cmds w a ! k) @ [CHR 0x0A] @ out @ [CHR 0x0A]"
      using e k(2) res by (simp add: run_error_def command_failed_msg_def)
  qed
  have c8: "\<forall>k rc msg.
        path_exists w (root_of w a) \<and> path_exists w (cover_of w a) \<and> source_files w a \<noteq> []
        \<and> k < length (planned_cmds w a)
        \<and> (\<forall>j<k. succeeded (planned_result w a s j))
        \<and> planned_result w a s k = (rc, Undecodable msg) \<longrightarrow>
        fst (script w (Namespace a) s) = 1
        \<and> spawned (snd (script w (Namespace a) s)) = spawned s @ take (Suc k) (planned_cmds w a)
        \<and> stderr (snd (script w (Namespace a) s)) = stderr s @ ''Error: '' @ msg @ [CHR 0x0A]"
  proof (intro allI, rule impI)
    fix k rc msg
    assume h: "path_exists w (root_of w a) \<and> path_exists w (cover_of w a) \<and> source_files w a \<noteq> []
        \<and> k < length (planned_cmds w a)
        \<and> (\<forall>j<k. succeeded (planned_result w a s j))
        \<and> planned_result w a s k = (rc, Undecodable msg)"
    then have v: "path_exists w (root_of w a)" "path_exists w (cover_of w a)" "source_files w a \<noteq> []"
      and k: "k \<le> length (planned_cmds w a)" "k < length (planned_cmds w a)"
      and ok: "\<forall>j<k. succeeded (planned_result w a s j)"
      and res: "planned_result w a s k = (rc, Undecodable msg)"
      by simp_all
    have bad: "k < length (planned_cmds w a) \<longrightarrow> \<not> succeeded (planned_result w a s k)"
      using res by (simp add: succeeded_def)
    note e = script_valid[OF v k(1) ok bad]
    show "fst (script w (Namespace a) s) = 1
        \<and> spawned (snd (script w (Namespace a) s)) = spawned s @ take (Suc k) (planned_cmds w a)
        \<and> stderr (snd (script w (Namespace a) s)) = stderr s @ ''Error: '' @ msg @ [CHR 0x0A]"
      using e k(2) res by (simp add: run_error_def)
  qed
  show ?thesis
    using c1 c2 c3 c4 c5 c6 c7 c8 c9 by (intro conjI)
qed

theorem exit_status_and_error_report_witness:
  "fst (script demo_world no_input_cmdline init_state) = 2
   \<and> fst (script demo_world help_cmdline init_state) = 0
   \<and> script no_dir_world (Namespace demo_args) init_state
       = (1, init_state\<lparr>stderr := ''Error: Missing input directory: /music'' @ [CHR 0x0A]\<rparr>)
   \<and> script no_cover_world (Namespace demo_args) init_state
       = (1, init_state\<lparr>stderr := ''Error: Missing cover image: /music/cover.png'' @ [CHR 0x0A]\<rparr>)
   \<and> script empty_world (Namespace demo_args) init_state
       = (1, init_state\<lparr>stderr := ''No WAV files found.'' @ [CHR 0x0A]\<rparr>)
   \<and> fst (script demo_world (Namespace demo_args) init_state) = 0
   \<and> length (spawned (snd (script demo_world (Namespace demo_args) init_state))) = 4
   \<and> stderr (snd (script demo_world (Namespace demo_args) init_state)) = []
   \<and> stdout (snd (script demo_world (Namespace demo_args) init_state))
       = ''Found 2 WAV files. Concatenating audio...'' @ [CHR 0x0A]
         @ ''Rendering final video -> FULL-GPU.mp4'' @ [CHR 0x0A]
         @ ''Done.'' @ [CHR 0x0A]
         @ ''Output video: /music/FULL-GPU.mp4'' @ [CHR 0x0A]
   \<and> planned_result failing_world demo_args init_state 1 = (1, Text ''boom'')
   \<and> fst (script failing_world (Namespace demo_args) init_state) = 1
   \<and> length (spawned (snd (script failing_world (Namespace demo_args) init_state))) = 2
   \<and> stderr (snd (script failing_world (Namespace demo_args) init_state))
       = ''Error: Command failed (1): ffmpeg -y -i /music/b.wav -c:a flac -sample_fmt s32 -ar 48000 /tmp/tmpk3/02.flac''
         @ [CHR 0x0A] @ ''boom'' @ [CHR 0x0A]
   \<and> planned_result undecodable_world demo_args init_state 0 = (0, Undecodable ''invalid start byte'')
   \<and> fst (script undecodable_world (Namespace demo_args) init_state) = 1
   \<and> length (spawned (snd (script undecodable_world (Namespace demo_args) init_state))) = 1
   \<and> stderr (snd (script undecodable_world (Namespace demo_args) init_state))
       = ''Error: invalid start byte'' @ [CHR 0x0A]"
proof -
  note t = exit_status_and_error_report
  have i: "stdout init_state = []" "stderr init_state = []" "spawned init_state = []"
    by (simp_all add: init_state_def)
  have u: "fst (script demo_world no_input_cmdline init_state) = 2"
    unfolding no_input_cmdline_def using t[where w=demo_world and s=init_state, THEN conjunct1] by simp
  have h: "fst (script demo_world help_cmdline init_state) = 0"
    unfolding help_cmdline_def
    using t[where w=demo_world and s=init_state, THEN conjunct2, THEN conjunct1] by simp
  have nd: "\<not> path_exists no_dir_world (root_of no_dir_world demo_args)"
    by (simp add: no_dir_world_def)
  have r1: "root_of no_dir_world demo_args = ''/music''" by code_simp
  have a: "script no_dir_world (Namespace demo_args) init_state
       = (1, init_state\<lparr>stderr := ''Error: Missing input directory: /music'' @ [CHR 0x0A]\<rparr>)"
    using t[where w=no_dir_world and s=init_state and a=demo_args, THEN conjunct2, THEN conjunct2, THEN conjunct1,
            THEN mp, OF nd]
    by (simp add: r1 i)
  have nc: "path_exists no_cover_world (root_of no_cover_world demo_args)
            \<and> \<not> path_exists no_cover_world (cover_of no_cover_world demo_args)"
    by code_simp
  have c1: "cover_of no_cover_world demo_args = ''/music/cover.png''" by code_simp
  have b: "script no_cover_world (Namespace demo_args) init_state
       = (1, init_state\<lparr>stderr := ''Error: Missing cover image: /music/cover.png'' @ [CHR 0x0A]\<rparr>)"
    using t[where w=no_cover_world and s=init_state and a=demo_args, THEN conjunct2, THEN conjunct2,
            THEN conjunct2, THEN conjunct1, THEN mp, OF nc]
    by (simp add: c1 i)
  have ne: "path_exists empty_world (root_of empty_world demo_args)
            \<and> path_exists empty_world (cover_of empty_world demo_args)
            \<and> source_files empty_world demo_args = []"
    by code_simp
  have c: "script empty_world (Namespace demo_args) init_state
       = (1, init_state\<lparr>stderr := ''No WAV files found.'' @ [CHR 0x0A]\<rparr>)"
    using t[where w=empty_world and s=init_state and a=demo_args, THEN conjunct2, THEN conjunct2,
            THEN conjunct2, THEN conjunct2, THEN conjunct1, THEN mp, OF ne]
    by (simp add: i)
  have vd: "path_exists demo_world (root_of demo_world demo_args)
            \<and> path_exists demo_world (cover_of demo_world demo_args)
            \<and> source_files demo_world demo_args \<noteq> []"
    by code_simp
  have okd: "\<forall>k<length (planned_cmds demo_world demo_args).
               succeeded (planned_result demo_world demo_args init_state k)"
    by (simp add: planned_result_def demo_world_def succeeded_def)
  have ld: "length (planned_cmds demo_world demo_args) = 4" by code_simp
  have ev: "str_nat (length (source_files demo_world demo_args)) = ''2''"
    "output_video_of demo_world demo_args = ''/music/FULL-GPU.mp4''"
    "path_name ''/music/FULL-GPU.mp4'' = ''FULL-GPU.mp4''"
    by code_simp+
  note d0 = t[where w=demo_world and s=init_state and a=demo_args, THEN conjunct2, THEN conjunct2,
            THEN conjunct2, THEN conjunct2, THEN conjunct2, THEN conjunct1, THEN mp,
            OF conjI[OF vd[THEN conjunct1] conjI[OF vd[THEN conjunct2, THEN conjunct1]
                 conjI[OF vd[THEN conjunct2, THEN conjunct2] okd]]]]
  note d1 = d0[unfolded i ev append_Nil]
  have d: "fst (script demo_world (Namespace demo_args) init_state) = 0"
    "length (spawned (snd (script demo_world (Namespace demo_args) init_state))) = 4"
    "stderr (snd (script demo_world (Namespace demo_args) init_state)) = []"
    "stdout (snd (script demo_world (Namespace demo_args) init_state))
       = ''Found 2 WAV files. Concatenating audio...'' @ [CHR 0x0A]
         @ ''Rendering final video -> FULL-GPU.mp4'' @ [CHR 0x0A]
         @ ''Done.'' @ [CHR 0x0A]
         @ ''Output video: /music/FULL-GPU.mp4'' @ [CHR 0x0A]"
  proof -
    show "fst (script demo_world (Namespace demo_args) init_state) = 0"
      using d1[THEN conjunct1] .
    show "length (spawned (snd (script demo_world (Namespace demo_args) init_state))) = 4"
      using d1[THEN conjunct2, THEN conjunct1] ld by simp
    show "stderr (snd (script demo_world (Namespace demo_args) init_state)) = []"
      using d1[THEN conjunct2, THEN conjunct2, THEN conjunct1] .
    show "stdout (snd (script demo_world (Namespace demo_args) init_state))
       = ''Found 2 WAV files. Concatenating audio...'' @ [CHR 0x0A]
         @ ''Rendering final video -> FULL-GPU.mp4'' @ [CHR 0x0A]
         @ ''Done.'' @ [CHR 0x0A]
         @ ''Output video: /music/FULL-GPU.mp4'' @ [CHR 0x0A]"
      using d1[THEN conjunct2, THEN conjunct2, THEN conjunct2] by simp
  qed
  have pf: "planned_result failing_world demo_args init_state 1 = (1, Text ''boom'')"
    by (simp add: planned_result_def failing_world_def demo_world_def init_state_def)
  have hf: "path_exists failing_world (root_of failing_world demo_args)
        \<and> path_exists failing_world (cover_of failing_world demo_args)
        \<and> source_files failing_world demo_args \<noteq> []
        \<and> 1 < length (planned_cmds failing_world demo_args)
        \<and> (\<forall>j<1. succeeded (planned_result failing_world demo_args init_state j))
        \<and> planned_result failing_world demo_args init_state 1 = (1, Text ''boom'') \<and> (1::int) \<noteq> 0"
  proof -
    have "path_exists failing_world (root_of failing_world demo_args)"
      "path_exists failing_world (cover_of failing_world demo_args)"
      "source_files failing_world demo_args \<noteq> []"
      "1 < length (planned_cmds failing_world demo_args)"
      by code_simp+
    moreover have "\<forall>j<1. succeeded (planned_result failing_world demo_args init_state j)"
      by (simp add: planned_result_def failing_world_def demo_world_def init_state_def succeeded_def)
    ultimately show ?thesis using pf by simp
  qed
  have tk: "take (Suc 1) (planned_cmds failing_world demo_args)
     = [[''ffmpeg'', ''-y'', ''-i'', ''/music/a.wav'', ''-c:a'', ''flac'', ''-sample_fmt'', ''s32'',
         ''-ar'', ''48000'', ''/tmp/tmpk3/01.flac''],
        [''ffmpeg'', ''-y'', ''-i'', ''/music/b.wav'', ''-c:a'', ''flac'', ''-sample_fmt'', ''s32'',
         ''-ar'', ''48000'', ''/tmp/tmpk3/02.flac'']]"
    by code_simp
  have js: "''Error: Command failed ('' @ str_int 1 @ ''): ''
              @ join_space (planned_cmds failing_world demo_args ! 1) @ [CHR 0x0A] @ ''boom'' @ [CHR 0x0A]
     = ''Error: Command failed (1): ffmpeg -y -i /music/b.wav -c:a flac -sample_fmt s32 -ar 48000 /tmp/tmpk3/02.flac''
         @ [CHR 0x0A] @ ''boom'' @ [CHR 0x0A]"
    by code_simp
  note f0 = t[where w=failing_world and s=init_state and a=demo_args, THEN conjunct2, THEN conjunct2,
            THEN conjunct2, THEN conjunct2, THEN conjunct2, THEN conjunct2, THEN conjunct1,
            THEN spec, THEN spec, THEN spec, THEN mp, OF hf]
  note f1 = f0[unfolded tk i append_Nil js]
  have f: "fst (script failing_world (Namespace demo_args) init_state) = 1"
    "length (spawned (snd (script failing_world (Namespace demo_args) init_state))) = 2"
    "stderr (snd (script failing_world (Namespace demo_args) init_state))
       = ''Error: Command failed (1): ffmpeg -y -i /music/b.wav -c:a flac -sample_fmt s32 -ar 48000 /tmp/tmpk3/02.flac''
         @ [CHR 0x0A] @ ''boom'' @ [CHR 0x0A]"
  proof -
    show "fst (script failing_world (Namespace demo_args) init_state) = 1"
      using f1[THEN conjunct1] .
    show "length (spawned (snd (script failing_world (Namespace demo_args) init_state))) = 2"
      using f1[THEN conjunct2, THEN conjunct1] by simp
    show "stderr (snd (script failing_world (Namespace demo_args) init_state))
       = ''Error: Command failed (1): ffmpeg -y -i /music/b.wav -c:a flac -sample_fmt s32 -ar 48000 /tmp/tmpk3/02.flac''
         @ [CHR 0x0A] @ ''boom'' @ [CHR 0x0A]"
      using f1[THEN conjunct2, THEN conjunct2] .
  qed
  have pu: "planned_result undecodable_world demo_args init_state 0
              = (0, Undecodable ''invalid start byte'')"
    by (simp add: planned_result_def undecodable_world_def demo_world_def init_state_def)
  have hu: "path_exists undecodable_world (root_of undecodable_world demo_args)
        \<and> path_exists undecodable_world (cover_of undecodable_world demo_args)
        \<and> source_files undecodable_world demo_args \<noteq> []
        \<and> 0 < length (planned_cmds undecodable_world demo_args)
        \<and> (\<forall>j<0. succeeded (planned_result undecodable_world demo_args init_state j))
        \<and> planned_result undecodable_world demo_args init_state 0
            = (0, Undecodable ''invalid start byte'')"
  proof -
    have "path_exists undecodable_world (root_of undecodable_world demo_args)"
      "path_exists undecodable_world (cover_of undecodable_world demo_args)"
      "source_files undecodable_world demo_args \<noteq> []"
      "0 < length (planned_cmds undecodable_world demo_args)"
      by code_simp+
    then show ?thesis using pu by simp
  qed
  note u0 = t[where w=undecodable_world and s=init_state and a=demo_args, THEN conjunct2, THEN conjunct2,
            THEN conjunct2, THEN conjunct2, THEN conjunct2, THEN conjunct2, THEN conjunct2,
            THEN conjunct1, THEN spec, THEN spec, THEN spec, THEN mp, OF hu]
  have tu: "length (take (Suc 0) (planned_cmds undecodable_world demo_args)) = 1"
    by code_simp
  note u1 = u0[unfolded i append_Nil]
  have g: "fst (script undecodable_world (Namespace demo_args) init_state) = 1"
    "length (spawned (snd (script undecodable_world (Namespace demo_args) init_state))) = 1"
    "stderr (snd (script undecodable_world (Namespace demo_args) init_state))
       = ''Error: invalid start byte'' @ [CHR 0x0A]"
  proof -
    show "fst (script undecodable_world (Namespace demo_args) init_state) = 1"
      using u1[THEN conjunct1] .
    show "length (spawned (snd (script undecodable_world (Namespace demo_args) init_state))) = 1"
      using u1[THEN conjunct2, THEN conjunct1] tu by simp
    show "stderr (snd (script undecodable_world (Namespace demo_args) init_state))
       = ''Error: invalid start byte'' @ [CHR 0x0A]"
      using u1[THEN conjunct2, THEN conjunct2] by simp
  qed
  show ?thesis using u h a b c d pf f pu g by (intro conjI)
qed

end
